theory Spec2Isabelle
  imports Complex_Main "HOL-Library.Product_Lexorder"
begin

section \<open>Resilience wrapper: \<^verbatim>\<open>utils/base_service.py\<close>\<close>

text \<open>
  Python exceptions are values: every function of the source that can raise returns
  \<open>exn + 'a\<close>, with \<open>Inl\<close> the raised exception.  The wrapped provider call is an
  arbitrary state transformer on an external world \<open>'w\<close>; \<^verbatim>\<open>time.time()\<close> reads a
  clock \<open>clk\<close> of that world.  Timestamps (Python floats) are modelled as reals.
\<close>

datatype exn = Exception string

datatype CircuitState = CLOSED | OPEN | HALF_OPEN

record CircuitBreaker =
  failure_threshold :: int
  recovery_timeout :: real
  failure_count :: int
  last_failure_time :: "real option"
  state :: CircuitState

definition CircuitBreaker_init :: "int \<Rightarrow> real \<Rightarrow> CircuitBreaker" where
  "CircuitBreaker_init threshold timeout =
     \<lparr>failure_threshold = threshold, recovery_timeout = timeout, failure_count = 0,
      last_failure_time = None, state = CLOSED\<rparr>"

text \<open>
  \<^verbatim>\<open>self.last_failure_time and time.time() - self.last_failure_time >= self.recovery_timeout\<close>:
  a timestamp that is \<^verbatim>\<open>None\<close> or \<^verbatim>\<open>0.0\<close> is falsy.
\<close>

definition should_attempt_reset :: "CircuitBreaker \<Rightarrow> real \<Rightarrow> bool" where
  "should_attempt_reset cb now =
     (case last_failure_time cb of
        None \<Rightarrow> False
      | Some t \<Rightarrow> t \<noteq> 0 \<and> now - t \<ge> recovery_timeout cb)"

definition on_success :: "CircuitBreaker \<Rightarrow> CircuitBreaker" where
  "on_success cb = cb\<lparr>failure_count := 0, state := CLOSED\<rparr>"

definition on_failure :: "CircuitBreaker \<Rightarrow> real \<Rightarrow> CircuitBreaker" where
  "on_failure cb now =
     (let cb' = cb\<lparr>failure_count := failure_count cb + 1, last_failure_time := Some now\<rparr>
      in if failure_count cb' \<ge> failure_threshold cb' then cb'\<lparr>state := OPEN\<rparr> else cb')"

definition circuit_open_error :: exn where
  "circuit_open_error = Exception ''Circuit breaker is OPEN - service unavailable''"

definition call ::
  "('w \<Rightarrow> real) \<Rightarrow> CircuitBreaker \<Rightarrow> ('w \<Rightarrow> (exn + 'a) \<times> 'w) \<Rightarrow> 'w
     \<Rightarrow> ((exn + 'a) \<times> CircuitBreaker) \<times> 'w" where
  "call clk cb func w =
     (if state cb = OPEN \<and> \<not> should_attempt_reset cb (clk w)
      then ((Inl circuit_open_error, cb), w)
      else
        let cb1 = (if state cb = OPEN then cb\<lparr>state := HALF_OPEN\<rparr> else cb)
        in case func w of
             (Inr result, w') \<Rightarrow> ((Inr result, on_success cb1), w')
           | (Inl e, w') \<Rightarrow> ((Inl e, on_failure cb1 (clk w')), w'))"

text \<open>Feeding a breaker a sequence of calls, one after the other (results dropped).\<close>

fun feed_calls ::
  "('w \<Rightarrow> real) \<Rightarrow> CircuitBreaker \<Rightarrow> ('w \<Rightarrow> (exn + 'a) \<times> 'w) list \<Rightarrow> 'w
     \<Rightarrow> CircuitBreaker \<times> 'w" where
  "feed_calls clk cb [] w = (cb, w)"
| "feed_calls clk cb (f # fs) w =
     (case call clk cb f w of ((r, cb'), w') \<Rightarrow> feed_calls clk cb' fs w')"

text \<open>A wrapped function that raises in every world.\<close>

definition always_fails :: "('w \<Rightarrow> (exn + 'a) \<times> 'w) \<Rightarrow> bool" where
  "always_fails f = (\<forall>w. isl (fst (f w)))"

text \<open>\<^verbatim>\<open>BaseService.is_available\<close> and the state string of \<^verbatim>\<open>get_status\<close>.\<close>

definition is_available :: "CircuitBreaker \<Rightarrow> bool" where
  "is_available cb = (state cb \<noteq> OPEN)"

fun state_value :: "CircuitState \<Rightarrow> string" where
  "state_value CLOSED = ''closed''"
| "state_value OPEN = ''open''"
| "state_value HALF_OPEN = ''half_open''"

text \<open>The states a breaker can be in between two calls.\<close>

definition breaker_inv :: "CircuitBreaker \<Rightarrow> bool" where
  "breaker_inv cb = (case state cb of
       CLOSED \<Rightarrow> True
     | OPEN \<Rightarrow> failure_count cb \<ge> failure_threshold cb
     | HALF_OPEN \<Rightarrow> False)"

text \<open>
  Two wrapped functions for concrete runs.  The world is a clock reading and a count of
  the invocations of the wrapped function: each invocation takes one second and is
  counted; the first raises, the second returns a value.
\<close>

definition failing_probe :: "real \<times> nat \<Rightarrow> (exn + string) \<times> (real \<times> nat)" where
  "failing_probe w = (Inl (Exception ''provider down''), (fst w + 1, Suc (snd w)))"

definition succeeding_probe :: "real \<times> nat \<Rightarrow> (exn + string) \<times> (real \<times> nat)" where
  "succeeding_probe w = (Inr ''ok'', (fst w + 1, Suc (snd w)))"

section \<open>Strings\<close>

text \<open>
  Python strings are modelled as \<open>string\<close>: a character is a byte, a string outside
  ASCII is its UTF-8 encoding, and \<^verbatim>\<open>str.lower\<close>, \<^verbatim>\<open>str.title\<close> and \<^verbatim>\<open>str.isalpha\<close>
  act on the ASCII letters only.  \<open>py_in needle hay\<close> is \<^verbatim>\<open>needle in hay\<close>.
\<close>

definition upper_lower_table :: "(char \<times> char) list" where
  "upper_lower_table = zip ''ABCDEFGHIJKLMNOPQRSTUVWXYZ'' ''abcdefghijklmnopqrstuvwxyz''"

definition lower_char :: "char \<Rightarrow> char" where
  "lower_char c = (case map_of upper_lower_table c of Some d \<Rightarrow> d | None \<Rightarrow> c)"

definition upper_char :: "char \<Rightarrow> char" where
  "upper_char c =
     (case map_of (map (\<lambda>(u, l). (l, u)) upper_lower_table) c of Some d \<Rightarrow> d | None \<Rightarrow> c)"

definition is_alpha_char :: "char \<Rightarrow> bool" where
  "is_alpha_char c = (c \<in> set (map fst upper_lower_table) \<or> c \<in> set (map snd upper_lower_table))"

definition lower :: "string \<Rightarrow> string" where
  "lower s = map lower_char s"

fun is_prefix :: "string \<Rightarrow> string \<Rightarrow> bool" where
  "is_prefix [] ys = True"
| "is_prefix (x # xs) [] = False"
| "is_prefix (x # xs) (y # ys) = (x = y \<and> is_prefix xs ys)"

fun py_in :: "string \<Rightarrow> string \<Rightarrow> bool" where
  "py_in needle [] = (needle = [])"
| "py_in needle (h # hs) = (is_prefix needle (h # hs) \<or> py_in needle hs)"

text \<open>\<^verbatim>\<open>any(keyword in text for keyword in keywords)\<close>\<close>

definition any_in :: "string list \<Rightarrow> string \<Rightarrow> bool" where
  "any_in keywords text = list_ex (\<lambda>k. py_in k text) keywords"

text \<open>\<^verbatim>\<open>' '.join(parts)\<close>\<close>

fun join_space :: "string list \<Rightarrow> string" where
  "join_space [] = []"
| "join_space [x] = x"
| "join_space (x # y # ys) = x @ '' '' @ join_space (y # ys)"

text \<open>\<^verbatim>\<open>sep.join(parts)\<close>\<close>

fun join_sep :: "string \<Rightarrow> string list \<Rightarrow> string" where
  "join_sep sep [] = []"
| "join_sep sep [x] = x"
| "join_sep sep (x # y # ys) = x @ sep @ join_sep sep (y # ys)"

text \<open>\<^verbatim>\<open>str.split()\<close>: split at runs of whitespace, no empty words.\<close>

definition is_space :: "char \<Rightarrow> bool" where
  "is_space c = (c \<in> set [CHR 0x09, CHR 0x0A, CHR 0x0B, CHR 0x0C, CHR 0x0D,
                          CHR 0x1C, CHR 0x1D, CHR 0x1E, CHR 0x1F, CHR 0x20])"

fun split_words :: "string \<Rightarrow> string \<Rightarrow> string list" where
  "split_words cur [] = (if cur = [] then [] else [cur])"
| "split_words cur (c # cs) =
     (if is_space c then (if cur = [] then split_words [] cs else cur # split_words [] cs)
      else split_words (cur @ [c]) cs)"

definition py_split :: "string \<Rightarrow> string list" where
  "py_split s = split_words [] s"

text \<open>\<^verbatim>\<open>str.isalpha\<close>\<close>

definition isalpha :: "string \<Rightarrow> bool" where
  "isalpha s = (s \<noteq> [] \<and> list_all is_alpha_char s)"

text \<open>
  \<^verbatim>\<open>for k in keywords: if k in text: score += weight(k)\<close>, the loop all the scoring
  functions are made of; \<open>s\<close> is the score so far.
\<close>

fun add_hits :: "(string \<Rightarrow> real) \<Rightarrow> string list \<Rightarrow> string \<Rightarrow> real \<Rightarrow> real" where
  "add_hits weight [] text s = s"
| "add_hits weight (k # ks) text s =
     add_hits weight ks text (if py_in k text then s + weight k else s)"

section \<open>Cultural discovery engine: \<^verbatim>\<open>utils/tastedive_api.py\<close>, scoring\<close>

definition korean_cultural_keywords :: "string list" where
  "korean_cultural_keywords =
     [''korean'', ''korea'', ''k-pop'', ''kpop'', ''kdrama'', ''seoul'', ''busan'',
      ''korean food'', ''korean culture'', ''korean music'', ''korean film'',
      ''hallyu'', ''korean wave'', ''korean traditional'', ''korean modern'',
      ''korean entertainment'', ''korean art'', ''korean history'']"

definition korean_keyword_weight :: "string \<Rightarrow> real" where
  "korean_keyword_weight keyword =
     (if keyword \<in> set [''korean'', ''korea''] then 0.4
      else if keyword \<in> set [''k-pop'', ''kpop'', ''kdrama''] then 0.3
      else if keyword \<in> set [''seoul'', ''busan''] then 0.2
      else 0.1)"

definition cultural_indicators :: "string list" where
  "cultural_indicators =
     [''traditional'', ''modern'', ''contemporary'', ''authentic'', ''cultural'',
      ''heritage'', ''history'', ''art'', ''music'', ''film'', ''literature'']"

definition korean_elements :: "string list" where
  "korean_elements =
     [''hanbok'', ''kimchi'', ''bulgogi'', ''bibimbap'', ''taekwondo'', ''hallyu'',
      ''chaebol'', ''soju'', ''makgeolli'', ''temple'', ''palace'', ''hanok'']"

definition asian_indicators :: "string list" where
  "asian_indicators =
     [''asian'', ''asia'', ''east asian'', ''oriental'', ''confucian'', ''buddhist'']"

text \<open>
  \<^verbatim>\<open>CulturalDiscoveryEngine._calculate_cultural_relevance_score\<close>: \<open>item_type\<close> is a
  parameter of the source that its body never reads.
\<close>

definition calculate_cultural_relevance_score :: "string \<Rightarrow> string \<Rightarrow> string \<Rightarrow> real" where
  "calculate_cultural_relevance_score name description item_type =
     (let text_content = lower (name @ '' '' @ description);
          score0 = add_hits korean_keyword_weight korean_cultural_keywords text_content 0;
          score1 = add_hits (\<lambda>k. 0.05) cultural_indicators text_content score0;
          score2 = add_hits (\<lambda>k. 0.15) korean_elements text_content score1;
          score3 = add_hits (\<lambda>k. 0.1) asian_indicators text_content score2;
          score4 = (if score3 = 0 \<and>
                       any_in [''culture'', ''traditional'', ''modern'', ''art'', ''music'', ''film'']
                         text_content
                    then 0.15 else score3)
      in min score4 1)"

definition authentic_elements :: "string list" where
  "authentic_elements =
     [''traditional'', ''heritage'', ''historical'', ''authentic'', ''original'',
      ''classical'', ''folk'', ''indigenous'', ''ancestral'', ''ceremonial'']"

definition modern_elements :: "string list" where
  "modern_elements =
     [''contemporary'', ''modern'', ''current'', ''trendy'', ''popular'', ''mainstream'']"

text \<open>\<^verbatim>\<open>CulturalDiscoveryEngine._calculate_authenticity_score\<close>\<close>

definition calculate_authenticity_score :: "string \<Rightarrow> string \<Rightarrow> real" where
  "calculate_authenticity_score name description =
     (let text_content = lower (name @ '' '' @ description);
          score1 = add_hits (\<lambda>k. 0.1) authentic_elements text_content 0.5;
          score2 = add_hits (\<lambda>k. 0.05) modern_elements text_content score1
      in min score2 1)"

section \<open>Recommendation records\<close>

text \<open>
  A recommendation is a Python dict.  The record has one field for each key that the
  modelled functions read or write; a key that is absent is \<open>None\<close>, and a key that is
  present holds a string (a list of strings, a number): a dict in which a key holds
  Python's \<^verbatim>\<open>None\<close> is not a value of this record, and the model says nothing of it.
  The keys \<^verbatim>\<open>'Name'\<close> and \<^verbatim>\<open>'name'\<close> (and \<^verbatim>\<open>'Type'\<close> and \<^verbatim>\<open>'type'\<close>) are different keys.
  Keys that no modelled function reads (\<^verbatim>\<open>id\<close>, \<^verbatim>\<open>location\<close>, \<^verbatim>\<open>rating\<close>, \<^verbatim>\<open>price_level\<close>,
  \<^verbatim>\<open>opening_hours\<close>, \<^verbatim>\<open>contact\<close>, \<^verbatim>\<open>amenities\<close>) are left out.  Scores are Python floats,
  modelled as reals.  The value under \<^verbatim>\<open>'neighborhood_insights'\<close> is the dict of
  \<^verbatim>\<open>best_for\<close>, \<^verbatim>\<open>cultural_significance\<close>, \<^verbatim>\<open>authentic_experiences\<close> and
  \<^verbatim>\<open>avoid_tourist_traps\<close>, in this order.
\<close>

type_synonym rec_insights = "string list \<times> string \<times> string list \<times> string list"

record recommendation =
  Name :: "string option"
  name :: "string option"
  Type :: "string option"
  type_key :: "string option"
  category :: "string option"
  wTeaser :: "string option"
  description :: "string option"
  cultural_context :: "string option"
  cultural_tags :: "string list option"
  source :: "string option"
  recommendation_type :: "string option"
  neighborhood :: "string option"
  cultural_relevance :: "real option"
  authenticity_score :: "real option"
  personalization_score :: "real option"
  neighborhood_insights :: "rec_insights option"
  fallback_reason :: "string option"

definition empty_rec :: recommendation where
  "empty_rec =
     \<lparr>Name = None, name = None, Type = None, type_key = None, category = None,
      wTeaser = None, description = None, cultural_context = None, cultural_tags = None,
      source = None, recommendation_type = None, neighborhood = None,
      cultural_relevance = None, authenticity_score = None, personalization_score = None,
      neighborhood_insights = None, fallback_reason = None\<rparr>"

text \<open>\<^verbatim>\<open>str(d.get(k, '')) if d.get(k) is not None else ''\<close>\<close>

definition str_field :: "string option \<Rightarrow> string" where
  "str_field v = (case v of None \<Rightarrow> [] | Some s \<Rightarrow> s)"

text \<open>\<^verbatim>\<open>d.get(k, 0)\<close> on a score\<close>

definition num_field :: "real option \<Rightarrow> real" where
  "num_field v = (case v of None \<Rightarrow> 0 | Some x \<Rightarrow> x)"

text \<open>\<^verbatim>\<open>' '.join(str(tag) for tag in cultural_tags if tag is not None)\<close>\<close>

definition cultural_tags_str :: "recommendation \<Rightarrow> string" where
  "cultural_tags_str r = join_space (case cultural_tags r of None \<Rightarrow> [] | Some ts \<Rightarrow> ts)"

text \<open>\<^verbatim>\<open>rec.get('Name', rec.get('name', ''))\<close>\<close>

definition rec_name :: "recommendation \<Rightarrow> string" where
  "rec_name r = (case Name r of Some n \<Rightarrow> n | None \<Rightarrow> str_field (name r))"

section \<open>Orchestrator: \<^verbatim>\<open>utils/local_guide_system.py\<close>\<close>

record neighborhood_insight =
  character :: string
  best_for :: "string list"
  cultural_significance :: string
  authentic_experiences :: "string list"
  avoid_tourist_traps :: "string list"

text \<open>\<^verbatim>\<open>self.neighborhood_insights\<close>, a dict, in its insertion order.\<close>

definition neighborhood_insights_table :: "(string \<times> neighborhood_insight) list" where
  "neighborhood_insights_table =
     [(''hongdae'',
       \<lparr>character = ''Youth culture, street food, nightlife'',
        best_for = [''nightlife'', ''indie music'', ''street performances'', ''young crowd''],
        cultural_significance = ''University area representing Korean youth culture'',
        authentic_experiences = [''Live music venues'', ''Street food after 9 PM'', ''Indie shops''],
        avoid_tourist_traps = [''Overpriced themed cafes'', ''Chain restaurants in main area'']\<rparr>),
      (''myeongdong'',
       \<lparr>character = ''Shopping and tourist street food'',
        best_for = [''shopping'', ''cosmetics'', ''street food'', ''first-time visitors''],
        cultural_significance = ''Major commercial district showcasing Korean consumer culture'',
        authentic_experiences = [''Korean cosmetics shopping'', ''Street food stalls'', ''Department stores''],
        avoid_tourist_traps = [''Overpriced restaurants targeting tourists'', ''Generic souvenir shops'']\<rparr>),
      (''itaewon'',
       \<lparr>character = ''International food and nightlife'',
        best_for = [''international cuisine'', ''nightlife'', ''multicultural experience''],
        cultural_significance = (''International district showing Korea'' @ [CHR 0x27] @ ''s global connections''),
        authentic_experiences = [''Halal Korean fusion'', ''International bars'', ''Multicultural events''],
        avoid_tourist_traps = [''Generic Western food'', ''Overpriced foreigner-targeted venues'']\<rparr>),
      (''gangnam'',
       \<lparr>character = (''Caf'' @ [CHR 0xC3, CHR 0x83, CHR 0xC2, CHR 0xA9] @ ''s, fine dining, upscale shopping''),
        best_for = [''luxury shopping'', ''high-end dining'', ''modern Korean lifestyle''],
        cultural_significance = ''Represents modern Korean affluence and K-pop culture'',
        authentic_experiences = [''High-end Korean BBQ'', ''Designer shopping'', ''Trendy cafes''],
        avoid_tourist_traps = [''K-pop tourist shops'', ''Overpriced themed restaurants'']\<rparr>),
      (''jongno'',
       \<lparr>character = ''Historic district with traditional culture'',
        best_for = [''history'', ''traditional culture'', ''palaces'', ''temples''],
        cultural_significance = ''Historic heart of Seoul with traditional Korean culture'',
        authentic_experiences = [''Palace visits'', ''Traditional tea houses'', ''Hanbok rental''],
        avoid_tourist_traps = [''Tourist-focused traditional restaurants'', ''Overpriced hanbok rentals'']\<rparr>),
      (''insadong'',
       \<lparr>character = ''Traditional arts and crafts with tea culture'',
        best_for = [''traditional arts'', ''crafts shopping'', ''tea culture'', ''cultural experiences''],
        cultural_significance = ''Traditional arts district preserving Korean cultural heritage'',
        authentic_experiences = [''Traditional tea ceremonies'', ''Artisan workshops'', ''Antique shopping''],
        avoid_tourist_traps = [(''Mass-produced '' @ [CHR 0x22] @ ''traditional'' @ [CHR 0x22] @ '' items''), ''Tourist-focused tea houses'']\<rparr>)]"


text \<open>The entries of \<^verbatim>\<open>self.korean_cultural_context\<close> that the orchestrator reads.\<close>

definition cultural_norms_tipping :: string where
  "cultural_norms_tipping = ''Tipping is not customary in South Korea''"

definition cultural_norms_punctuality :: string where
  "cultural_norms_punctuality = ''People value punctuality and personal space''"

definition food_culture_banchan :: string where
  "food_culture_banchan = ''Korean meals often include shared side dishes (banchan)''"

definition food_culture_street_food_timing :: string where
  "food_culture_street_food_timing = ''Street food is best explored after sunset''"


text \<open>\<^verbatim>\<open>self.authenticity_weights\<close>, in its insertion order.\<close>

definition authenticity_weights :: "(string \<times> real) list" where
  "authenticity_weights =
     [(''traditional'', 1.0), (''local'', 0.9), (''cultural'', 0.8), (''authentic'', 0.8),
      (''heritage'', 0.7), (''modern_korean'', 0.6), (''tourist'', 0.2), (''generic'', 0.1)]"

text \<open>\<^verbatim>\<open>for keyword, weight in self.authenticity_weights.items(): if keyword in rec_text: score += weight * 0.1\<close>\<close>

fun add_weighted_hits :: "(string \<times> real) list \<Rightarrow> string \<Rightarrow> real \<Rightarrow> real" where
  "add_weighted_hits [] text s = s"
| "add_weighted_hits ((keyword, weight) # kws) text s =
     add_weighted_hits kws text (if py_in keyword text then s + weight * 0.1 else s)"

text \<open>\<^verbatim>\<open>LocalGuideSystem._calculate_authenticity_score\<close>\<close>

definition lgs_calculate_authenticity_score :: "recommendation \<Rightarrow> real" where
  "lgs_calculate_authenticity_score r =
     (let rec_text = lower (str_field (Name r) @ '' '' @ str_field (wTeaser r) @ '' '' @
                            str_field (description r) @ '' '' @
                            str_field (cultural_context r) @ '' '' @ cultural_tags_str r);
          score1 = add_weighted_hits authenticity_weights rec_text 0.5;
          score2 = (if source r = Some ''local_knowledge'' then score1 + 0.2 else score1);
          score3 = (case neighborhood r of
                      None \<Rightarrow> score2
                    | Some n \<Rightarrow> if n \<in> set (map fst neighborhood_insights_table)
                                then score2 + 0.1 else score2)
      in min score3 1)"

text \<open>
  \<^verbatim>\<open>LocalGuideSystem._prioritize_authentic_experiences\<close>.  \<^verbatim>\<open>list.sort(key=..., reverse=True)\<close>
  is stable and descending: a stable ascending sort on the negated key.
\<close>

definition prioritize_authentic_experiences :: "recommendation list \<Rightarrow> recommendation list" where
  "prioritize_authentic_experiences recommendations =
     sort_key (\<lambda>x. (- num_field (authenticity_score x), - num_field (cultural_relevance x)))
       (map (\<lambda>r. r\<lparr>authenticity_score := Some (lgs_calculate_authenticity_score r)\<rparr>)
          recommendations)"

text \<open>\<^verbatim>\<open>str.title\<close>: a letter is upper-cased after a character that is not a letter, lower-cased after a letter.\<close>

fun title_from :: "bool \<Rightarrow> string \<Rightarrow> string" where
  "title_from prev_cased [] = []"
| "title_from prev_cased (c # cs) =
     (if is_alpha_char c
      then (if prev_cased then lower_char c else upper_char c) # title_from True cs
      else c # title_from False cs)"

definition title :: "string \<Rightarrow> string" where
  "title s = title_from False s"

definition endswith_dot :: "string \<Rightarrow> bool" where
  "endswith_dot s = (s \<noteq> [] \<and> last s = CHR ''.'')"

text \<open>\<^verbatim>\<open>LocalGuideSystem._add_neighborhood_insights\<close>, the body of the loop and the loop.\<close>

definition add_neighborhood_insights_one :: "recommendation \<Rightarrow> recommendation" where
  "add_neighborhood_insights_one r =
     (let nb = lower (str_field (neighborhood r))
      in case map_of neighborhood_insights_table nb of
           None \<Rightarrow> r
         | Some insights \<Rightarrow>
             (let existing0 = str_field (cultural_context r);
                  existing_context =
                    (if existing0 \<noteq> [] \<and> \<not> endswith_dot existing0 then existing0 @ ''. ''
                     else if existing0 \<noteq> [] then existing0 @ '' ''
                     else existing0);
                  r1 = (if character insights \<noteq> []
                        then r\<lparr>cultural_context :=
                               Some (existing_context @ ''Located in '' @ title nb @ '': '' @
                                     character insights)\<rparr>
                        else r)
              in r1\<lparr>neighborhood_insights :=
                      Some (best_for insights, cultural_significance insights,
                            authentic_experiences insights, avoid_tourist_traps insights)\<rparr>))"

definition add_neighborhood_insights :: "recommendation list \<Rightarrow> recommendation list" where
  "add_neighborhood_insights recommendations = map add_neighborhood_insights_one recommendations"

text \<open>\<^verbatim>\<open>LocalGuideSystem._extract_relevant_neighborhood_insights\<close>: the dict in insertion order.\<close>

fun extract_relevant_neighborhood_insights_from ::
  "(string \<times> neighborhood_insight) list \<Rightarrow> recommendation list
     \<Rightarrow> (string \<times> neighborhood_insight) list" where
  "extract_relevant_neighborhood_insights_from acc [] = acc"
| "extract_relevant_neighborhood_insights_from acc (r # rs) =
     (let nb = lower (str_field (neighborhood r))
      in case map_of neighborhood_insights_table nb of
           None \<Rightarrow> extract_relevant_neighborhood_insights_from acc rs
         | Some insights \<Rightarrow>
             if nb \<in> set (map fst acc)
             then extract_relevant_neighborhood_insights_from acc rs
             else extract_relevant_neighborhood_insights_from (acc @ [(nb, insights)]) rs)"

definition extract_relevant_neighborhood_insights ::
  "recommendation list \<Rightarrow> (string \<times> neighborhood_insight) list" where
  "extract_relevant_neighborhood_insights recommendations =
     extract_relevant_neighborhood_insights_from [] recommendations"

text \<open>\<^verbatim>\<open>LocalGuideSystem._calculate_overall_authenticity_score\<close>\<close>

definition calculate_overall_authenticity_score :: "recommendation list \<Rightarrow> real" where
  "calculate_overall_authenticity_score recommendations =
     (if recommendations = [] then 0
      else sum_list (map (\<lambda>r. num_field (authenticity_score r)) recommendations)
             / real (length recommendations))"

text \<open>Two records for concrete runs: a tea house in Insadong and a record with no text at all.\<close>

definition sample_tea_house :: recommendation where
  "sample_tea_house =
     empty_rec\<lparr>Name := Some ''Traditional Tea House'', neighborhood := Some ''insadong''\<rparr>"

section \<open>Orchestrator: personalization\<close>

text \<open>
  The user profile is a nested dict; the record has the entries that
  \<^verbatim>\<open>_get_personalization_context\<close> reads, a missing sub-dict or list being the empty
  list.  An entry of \<^verbatim>\<open>history.visited_places\<close> or \<^verbatim>\<open>history.favorites\<close> is a dict that
  is read with \<^verbatim>\<open>place['name']\<close>: \<open>None\<close> is an entry without that key, which raises
  \<^verbatim>\<open>KeyError\<close>.  A profile that is \<^verbatim>\<open>None\<close> or an empty dict is \<open>None\<close>.
\<close>

record user_profile =
  up_interests :: "string list"
  up_food_restrictions :: "string list"
  up_cultural_preferences :: "string list"
  up_budget_range :: "string option"
  up_travel_style :: "string option"
  up_visited_places :: "string option list"
  up_favorites :: "string option list"
  up_preferred_neighborhoods :: "string list"

record personalization_context =
  interests :: "string list"
  food_restrictions :: "string list"
  cultural_preferences :: "string list"
  budget_range :: string
  travel_style :: string
  visited_places :: "string list"
  favorite_places :: "string list"
  preferred_neighborhoods :: "string list"

text \<open>\<^verbatim>\<open>[place['name'] for place in places]\<close>\<close>

fun names_of :: "string option list \<Rightarrow> exn + string list" where
  "names_of [] = Inr []"
| "names_of (None # ps) = Inl (Exception ''KeyError: name'')"
| "names_of (Some n # ps) = (case names_of ps of Inl e \<Rightarrow> Inl e | Inr ns \<Rightarrow> Inr (n # ns))"

text \<open>
  \<^verbatim>\<open>LocalGuideSystem._get_personalization_context\<close>; the result \<open>None\<close> is the empty
  dict, which is falsy.
\<close>

definition get_personalization_context ::
  "user_profile option \<Rightarrow> exn + personalization_context option" where
  "get_personalization_context profile =
     (case profile of
        None \<Rightarrow> Inr None
      | Some p \<Rightarrow>
          (case names_of (up_visited_places p) of
             Inl e \<Rightarrow> Inl e
           | Inr visited \<Rightarrow>
               (case names_of (up_favorites p) of
                  Inl e \<Rightarrow> Inl e
                | Inr favorites \<Rightarrow>
                    Inr (Some \<lparr>interests = up_interests p,
                               food_restrictions = up_food_restrictions p,
                               cultural_preferences = up_cultural_preferences p,
                               budget_range = (case up_budget_range p of
                                                 None \<Rightarrow> ''mid-range'' | Some b \<Rightarrow> b),
                               travel_style = (case up_travel_style p of
                                                 None \<Rightarrow> ''solo'' | Some t \<Rightarrow> t),
                               visited_places = visited,
                               favorite_places = favorites,
                               preferred_neighborhoods = up_preferred_neighborhoods p\<rparr>))))"

definition restriction_keywords :: "(string \<times> string list) list" where
  "restriction_keywords =
     [(''vegetarian'', [''meat'', ''beef'', ''pork'', ''chicken'', ''fish'', ''seafood'', ''bbq'']),
      (''vegan'', [''meat'', ''beef'', ''pork'', ''chicken'', ''fish'', ''seafood'', ''dairy'',
                   ''egg'', ''bbq'']),
      (''no_spicy'', [''spicy'', ''hot'', ''chili'', ''gochujang'', ''kimchi'']),
      (''halal'', [''pork'', ''alcohol'', ''wine'', ''beer'']),
      (''gluten_free'', [''wheat'', ''noodle'', ''bread'', ''flour''])]"

text \<open>
  The text that \<^verbatim>\<open>_violates_food_restrictions\<close> and \<^verbatim>\<open>_calculate_personalization_score\<close>
  search: the values under \<^verbatim>\<open>'Name'\<close>, \<^verbatim>\<open>'wTeaser'\<close> and \<^verbatim>\<open>'description'\<close> and the
  cultural tags, joined by spaces, in lower case.
\<close>

definition combined_text :: "recommendation \<Rightarrow> string" where
  "combined_text r = str_field (Name r) @ '' '' @ str_field (wTeaser r) @ '' '' @
                     str_field (description r) @ '' '' @ cultural_tags_str r"

definition rec_text :: "recommendation \<Rightarrow> string" where
  "rec_text r = lower (combined_text r)"

text \<open>The loop of \<^verbatim>\<open>_violates_food_restrictions\<close> over the declared restrictions.\<close>

fun violates_any :: "string \<Rightarrow> string list \<Rightarrow> bool" where
  "violates_any rtext [] = False"
| "violates_any rtext (restriction # restrictions) =
     (case map_of restriction_keywords (lower restriction) of
        Some keywords \<Rightarrow>
          if any_in keywords rtext then True else violates_any rtext restrictions
      | None \<Rightarrow> violates_any rtext restrictions)"

text \<open>\<^verbatim>\<open>LocalGuideSystem._violates_food_restrictions\<close>\<close>

definition violates_food_restrictions :: "recommendation \<Rightarrow> string list \<Rightarrow> bool" where
  "violates_food_restrictions recommendation restrictions =
     (if restrictions = [] then False else violates_any (rec_text recommendation) restrictions)"

text \<open>
  \<^verbatim>\<open>LocalGuideSystem._calculate_personalization_score\<close>.  The interests and preferences
  arrive as Python sets: each distinct string counts once.
\<close>

definition calculate_personalization_score ::
  "recommendation \<Rightarrow> string list \<Rightarrow> string list \<Rightarrow> real" where
  "calculate_personalization_score recommendation user_interests prefs =
     (let rtext = rec_text recommendation;
          score1 = 0.3 * real (length (filter (\<lambda>i. py_in (lower i) rtext) (remdups user_interests)));
          score2 = score1 +
                   0.2 * real (length (filter (\<lambda>p. py_in (lower p) rtext) (remdups prefs)))
      in score2 + num_field (cultural_relevance recommendation) * 0.1)"

text \<open>The test that sends a record through the food restriction check.\<close>

definition is_restaurant :: "recommendation \<Rightarrow> bool" where
  "is_restaurant r =
     (category r = Some ''restaurant'' \<or> py_in ''restaurant'' (lower (str_field (Type r))))"

text \<open>\<^verbatim>\<open>LocalGuideSystem._apply_personalization_filtering\<close>: the loop, then the sort.\<close>

fun personalization_loop ::
  "personalization_context \<Rightarrow> recommendation list \<Rightarrow> recommendation list" where
  "personalization_loop ctx [] = []"
| "personalization_loop ctx (r # rs) =
     (if rec_name r \<in> set (visited_places ctx) then personalization_loop ctx rs
      else if is_restaurant r \<and> violates_food_restrictions r (food_restrictions ctx)
      then personalization_loop ctx rs
      else r\<lparr>personalization_score :=
               Some (calculate_personalization_score r (interests ctx) (cultural_preferences ctx))\<rparr>
           # personalization_loop ctx rs)"

definition apply_personalization_filtering ::
  "recommendation list \<Rightarrow> personalization_context \<Rightarrow> recommendation list" where
  "apply_personalization_filtering recommendations ctx =
     sort_key (\<lambda>x. - num_field (personalization_score x))
       (personalization_loop ctx recommendations)"

text \<open>A vegetarian user and two restaurants for concrete runs.\<close>

definition vegetarian_context :: personalization_context where
  "vegetarian_context =
     \<lparr>interests = [''food''], food_restrictions = [''vegetarian''], cultural_preferences = [],
      budget_range = ''mid-range'', travel_style = ''solo'', visited_places = [],
      favorite_places = [], preferred_neighborhoods = []\<rparr>"

definition pork_restaurant :: recommendation where
  "pork_restaurant =
     empty_rec\<lparr>Name := Some ''Samgyeopsal House'', category := Some ''restaurant'',
              description := Some ''Grilled pork belly eaten in groups''\<rparr>"

definition tofu_restaurant :: recommendation where
  "tofu_restaurant =
     empty_rec\<lparr>Name := Some ''Tofu Village'', category := Some ''restaurant'',
              description := Some ''Soft tofu stew and temple food''\<rparr>"

text \<open>
  A restaurant as the search adapter builds its records: the name stands under the key
  \<^verbatim>\<open>'name'\<close>, there is no key \<^verbatim>\<open>'Name'\<close>.
\<close>

definition pork_named_restaurant :: recommendation where
  "pork_named_restaurant =
     empty_rec\<lparr>name := Some ''Jeju black pork house'', category := Some ''restaurant''\<rparr>"

section \<open>Orchestrator: intent analysis\<close>

definition theme_keywords :: "(string \<times> string list) list" where
  "theme_keywords =
     [(''food_culture'', [''food'', ''eat'', ''restaurant'', ''cuisine'', ''dining'', ''korean food'', ''bbq'', ''kimchi'']),
      (''traditional_culture'', [''traditional'', ''temple'', ''palace'', ''hanbok'', ''heritage'', ''history'']),
      (''modern_culture'', [''k-pop'', ''kpop'', ''modern'', ''trendy'', ''fashion'', ''technology'']),
      (''nightlife'', [''nightlife'', ''bar'', ''club'', ''night'', ''party'', ''drink'']),
      (''shopping'', [''shopping'', ''buy'', ''store'', ''market'', ''cosmetics'', ''fashion'']),
      (''nature'', [''park'', ''nature'', ''hiking'', ''mountain'', ''river'', ''outdoor'']),
      (''entertainment'', [''music'', ''movie'', ''show'', ''performance'', ''concert'', ''theater''])]"

text \<open>\<^verbatim>\<open>LocalGuideSystem._detect_cultural_themes\<close>\<close>

definition detect_cultural_themes :: "string \<Rightarrow> string list" where
  "detect_cultural_themes query =
     (let query_lower = lower query;
          themes = map fst (filter (\<lambda>(theme, keywords). any_in keywords query_lower)
                              theme_keywords)
      in if themes \<noteq> [] then themes else [''general_culture''])"

definition neighborhood_aliases :: "(string \<times> string) list" where
  "neighborhood_aliases =
     [(''hongik'', ''hongdae''), (''university'', ''hongdae''), (''shopping'', ''myeongdong''), (''international'', ''itaewon''), (''foreigner'', ''itaewon''), (''rich'', ''gangnam''), (''luxury'', ''gangnam''), (''palace'', ''jongno''), (''traditional'', ''insadong''), (''art'', ''insadong'')]"

text \<open>\<^verbatim>\<open>LocalGuideSystem._detect_neighborhood_focus\<close>: the first district name found in the
  query, else the district of the first alias found, else \<^verbatim>\<open>None\<close>.\<close>

definition detect_neighborhood_focus :: "string \<Rightarrow> string option" where
  "detect_neighborhood_focus query =
     (let query_lower = lower query
      in case find (\<lambda>n. py_in n query_lower) (map fst neighborhood_insights_table) of
           Some n \<Rightarrow> Some n
         | None \<Rightarrow>
             (case find (\<lambda>(alias, n). py_in alias query_lower) neighborhood_aliases of
                Some (alias, n) \<Rightarrow> Some n
              | None \<Rightarrow> None))"

text \<open>
  What \<^verbatim>\<open>GeminiService.extract_entity_with_context\<close> returns (the keys \<^verbatim>\<open>entity\<close>,
  \<^verbatim>\<open>type\<close>, \<^verbatim>\<open>intent\<close>, \<^verbatim>\<open>korean_related\<close>), and the intent analysis made of it.
\<close>

record entity_info =
  entity :: string
  intent_type :: string
  intent :: string
  korean_related :: bool

record intent_analysis = entity_info +
  cultural_themes :: "string list"
  neighborhood_focus :: "string option"

definition enhance_intent :: "entity_info \<Rightarrow> string \<Rightarrow> intent_analysis" where
  "enhance_intent info user_query =
     \<lparr>entity = entity info, intent_type = intent_type info, intent = intent info,
      korean_related = korean_related info,
      cultural_themes = detect_cultural_themes user_query,
      neighborhood_focus = detect_neighborhood_focus user_query\<rparr>"

text \<open>\<^verbatim>\<open>LocalGuideSystem._fallback_intent_analysis\<close>\<close>

definition fallback_intent_analysis :: "string \<Rightarrow> intent_analysis" where
  "fallback_intent_analysis user_query =
     (let query_lower = lower user_query;
          ent = (case find (\<lambda>word. length word > 3 \<and> isalpha word) (py_split user_query) of
                   Some word \<Rightarrow> word
                 | None \<Rightarrow> ''korean culture'');
          ty = (if any_in [''eat'', ''food'', ''restaurant'', ''dining''] query_lower
                then ''restaurant''
                else if any_in [''visit'', ''see'', ''attraction'', ''place''] query_lower
                then ''attraction''
                else if any_in [''music'', ''movie'', ''show'', ''entertainment''] query_lower
                then ''entertainment''
                else ''place'')
      in \<lparr>entity = ent, intent_type = ty, intent = ''seeking recommendations'',
          korean_related = True,
          cultural_themes = detect_cultural_themes user_query,
          neighborhood_focus = detect_neighborhood_focus user_query\<rparr>)"

section \<open>Orchestrator: the coordinated services\<close>

text \<open>
  The services that the orchestrator coordinates are its collaborators: each method it
  calls is a state transformer on the world \<open>'w\<close> that returns a value or raises, and
  each \<^verbatim>\<open>is_available()\<close> reads the world (the state of that service's circuit
  breaker).  Nothing is assumed about them.  The service objects themselves are always
  truthy.  Logging is left out.  Records are values: the model does not follow the
  sharing of the dicts that the adapters return.
\<close>

record 'w services =
  response_generator_is_available :: "'w \<Rightarrow> bool"
  response_generator_extract_entity_with_context ::
    "string \<Rightarrow> 'w \<Rightarrow> (exn + entity_info) \<times> 'w"
  response_generator_generate_response ::
    "string \<Rightarrow> recommendation list \<Rightarrow> string \<Rightarrow> personalization_context option
       \<Rightarrow> 'w \<Rightarrow> (exn + string) \<times> 'w"
  gemini_service_is_available :: "'w \<Rightarrow> bool"
  gemini_service_extract_entity_with_context ::
    "string \<Rightarrow> 'w \<Rightarrow> (exn + entity_info) \<times> 'w"
  gemini_service_generate_local_guide_response ::
    "string \<Rightarrow> recommendation list \<Rightarrow> string \<Rightarrow> 'w \<Rightarrow> (exn + string) \<times> 'w"
  cultural_engine_is_available :: "'w \<Rightarrow> bool"
  cultural_engine_find_similar_korean_experiences ::
    "string \<Rightarrow> string \<Rightarrow> nat \<Rightarrow> 'w \<Rightarrow> (exn + recommendation list) \<times> 'w"
  search_service_is_available :: "'w \<Rightarrow> bool"
  search_service_search_places ::
    "string \<Rightarrow> (real \<times> real) option \<Rightarrow> string option \<Rightarrow> 'w
       \<Rightarrow> (exn + recommendation list) \<times> 'w"
  search_service_search_by_neighborhood ::
    "string \<Rightarrow> string option \<Rightarrow> 'w \<Rightarrow> (exn + recommendation list) \<times> 'w"

text \<open>\<^verbatim>\<open>LocalGuideSystem._analyze_user_intent\<close>\<close>

definition analyze_user_intent :: "'w services \<Rightarrow> string \<Rightarrow> 'w \<Rightarrow> intent_analysis \<times> 'w" where
  "analyze_user_intent svc user_query w =
     (let first_try =
            (if response_generator_is_available svc w
             then (case response_generator_extract_entity_with_context svc user_query w of
                     (Inr info, w1) \<Rightarrow> (Some info, w1)
                   | (Inl e, w1) \<Rightarrow> (None, w1))
             else (None, w))
      in case first_try of
           (Some info, w1) \<Rightarrow> (enhance_intent info user_query, w1)
         | (None, w1) \<Rightarrow>
             (if gemini_service_is_available svc w1
              then (case gemini_service_extract_entity_with_context svc user_query w1 of
                      (Inr info, w2) \<Rightarrow> (enhance_intent info user_query, w2)
                    | (Inl e, w2) \<Rightarrow> (fallback_intent_analysis user_query, w2))
              else (fallback_intent_analysis user_query, w1)))"

section \<open>Orchestrator: fan-out and merge\<close>

text \<open>The tags that the merge step writes on the records of each adapter.\<close>

definition tag_rec :: "string \<Rightarrow> string \<Rightarrow> recommendation \<Rightarrow> recommendation" where
  "tag_rec src rtype r = r\<lparr>source := Some src, recommendation_type := Some rtype\<rparr>"

text \<open>\<^verbatim>\<open>location or (37.5665, 126.9780)\<close>\<close>

definition seoul_center :: "real \<times> real" where
  "seoul_center = (37.5665, 126.9780)"

text \<open>
  The three adapter calls of \<^verbatim>\<open>_coordinate_recommendation_services\<close>, each with its
  guard and its \<^verbatim>\<open>try/except\<close>: an adapter that raises contributes nothing.
\<close>

definition cultural_recs_step :: "'w services \<Rightarrow> string \<Rightarrow> 'w \<Rightarrow> recommendation list \<times> 'w" where
  "cultural_recs_step svc user_query w =
     (if cultural_engine_is_available svc w
      then (case cultural_engine_find_similar_korean_experiences svc user_query ''all'' 8 w of
              (Inr cultural_recs, w1) \<Rightarrow>
                (map (tag_rec ''cultural_discovery'' ''cultural_experience'') cultural_recs, w1)
            | (Inl e, w1) \<Rightarrow> ([], w1))
      else ([], w))"

definition place_recs_step ::
  "'w services \<Rightarrow> string \<Rightarrow> (real \<times> real) option \<Rightarrow> 'w \<Rightarrow> recommendation list \<times> 'w" where
  "place_recs_step svc user_query location w =
     (if search_service_is_available svc w
      then (let search_location = (case location of Some l \<Rightarrow> l | None \<Rightarrow> seoul_center)
            in case search_service_search_places svc user_query (Some search_location) None w of
                 (Inr place_recs, w1) \<Rightarrow>
                   (take 6 (map (tag_rec ''search_service'' ''place'') place_recs), w1)
               | (Inl e, w1) \<Rightarrow> ([], w1))
      else ([], w))"

definition neighborhood_recs_step ::
  "'w services \<Rightarrow> string option \<Rightarrow> 'w \<Rightarrow> recommendation list \<times> 'w" where
  "neighborhood_recs_step svc focus w =
     (case focus of
        None \<Rightarrow> ([], w)
      | Some nf \<Rightarrow>
          if nf = [] then ([], w)
          else (case search_service_search_by_neighborhood svc nf None w of
                  (Inr neighborhood_recs, w1) \<Rightarrow>
                    (take 4 (map (tag_rec ''neighborhood_search'' ''neighborhood_place'')
                               neighborhood_recs), w1)
                | (Inl e, w1) \<Rightarrow> ([], w1)))"

text \<open>\<^verbatim>\<open>LocalGuideSystem._coordinate_recommendation_services\<close>\<close>

definition coordinate_recommendation_services ::
  "'w services \<Rightarrow> string \<Rightarrow> intent_analysis \<Rightarrow> personalization_context option
     \<Rightarrow> (real \<times> real) option \<Rightarrow> 'w \<Rightarrow> recommendation list \<times> 'w" where
  "coordinate_recommendation_services svc user_query intent_an pctx location w =
     (case cultural_recs_step svc user_query w of (cultural_recs, w1) \<Rightarrow>
      case place_recs_step svc user_query location w1 of (place_recs, w2) \<Rightarrow>
      case neighborhood_recs_step svc (neighborhood_focus intent_an) w2 of
        (neighborhood_recs, w3) \<Rightarrow>
      let all_recommendations = cultural_recs @ place_recs @ neighborhood_recs
      in (case pctx of
            Some ctx \<Rightarrow> apply_personalization_filtering all_recommendations ctx
          | None \<Rightarrow> all_recommendations, w3))"

section \<open>Orchestrator: response composition\<close>

text \<open>\<^verbatim>\<open>xs[0]\<close>\<close>

definition index0 :: "'a list \<Rightarrow> exn + 'a" where
  "index0 xs = (case xs of [] \<Rightarrow> Inl (Exception ''IndexError'') | x # rest \<Rightarrow> Inr x)"

definition place_item :: "recommendation \<Rightarrow> string" where
  "place_item place =
     (let nm = (case Name place of
                  Some n \<Rightarrow> n
                | None \<Rightarrow> (case name place of Some n \<Rightarrow> n | None \<Rightarrow> ''Korean Place''));
          context = (case cultural_context place of
                       Some c \<Rightarrow> c | None \<Rightarrow> ''Authentic Korean experience'')
      in ''<li><strong>'' @ nm @ ''</strong> - '' @ context @ ''</li>'')"

definition experience_item :: "recommendation \<Rightarrow> string" where
  "experience_item ex =
     (let nm = (case Name ex of Some n \<Rightarrow> n | None \<Rightarrow> ''Korean Cultural Experience'');
          teaser = (case wTeaser ex of
                      Some t \<Rightarrow> t | None \<Rightarrow> ''Authentic Korean cultural activity'')
      in ''<li><strong>'' @ nm @ ''</strong> - '' @ teaser @ ''</li>'')"

definition no_recommendations_head :: string where
  "no_recommendations_head =
       ([CHR 0x0A] @ ''            <div class='' @ [CHR 0x22] @ ''local-guide-response'' @
       [CHR 0x22] @ ''>'' @ [CHR 0x0A] @ ''                <p>'' @
       [CHR 0xC3, CHR 0xAC, CHR 0xE2, CHR 0x80, CHR 0xA2, CHR 0xCB, CHR 0x86, CHR 0xC3, CHR 0xAB, CHR 0xE2, CHR 0x80, CHR 0xA6, CHR 0xE2, CHR 0x80, CHR 0xA2, CHR 0xC3, CHR 0xAD, CHR 0xE2, CHR 0x80, CHR 0xA2, CHR 0xCB, CHR 0x9C, CHR 0xC3, CHR 0xAC, CHR 0xE2, CHR 0x80, CHR 0x9E, CHR 0xC2, CHR 0xB8, CHR 0xC3, CHR 0xAC, CHR 0xC5, CHR 0xA1, CHR 0xE2, CHR 0x80, CHR 0x9D] @
       ''! (Hello!) As your Korean local guide, I'' @ [CHR 0x27] @
       ''d love to help you explore authentic Korean culture.</p>'' @ [CHR 0x0A] @
       ''                <p>For your question about Korean experiences, I'' @
       '' recommend exploring these neighborhoods:</p>'' @ [CHR 0x0A] @
       ''                <ul>'' @ [CHR 0x0A] @
       ''                    <li><strong>Hongdae</strong> - Youth culture'' @
       '' and nightlife</li>'' @ [CHR 0x0A] @
       ''                    <li><strong>Myeongdong</strong> - Shopping a'' @
       ''nd street food</li>'' @ [CHR 0x0A] @
       ''                    <li><strong>Itaewon</strong> - International'' @
       '' district</li>'' @ [CHR 0x0A] @
       ''                    <li><strong>Insadong</strong> - Traditional '' @
       ''arts and tea culture</li>'' @ [CHR 0x0A] @ ''                </ul>'' @
       [CHR 0x0A] @ ''                <p><em>Cultural tip: '')"

definition no_recommendations_tail :: string where
  "no_recommendations_tail =
       (''</em></p>'' @ [CHR 0x0A] @ ''            </div>'' @ [CHR 0x0A] @ ''            '')"

definition default_cultural_tip :: string where
  "default_cultural_tip = ''Tipping is not customary in South Korea.''"

definition hello_line :: string where
  "hello_line =
       (''<p>'' @
       [CHR 0xC3, CHR 0xAC, CHR 0xE2, CHR 0x80, CHR 0xA2, CHR 0xCB, CHR 0x86, CHR 0xC3, CHR 0xAB, CHR 0xE2, CHR 0x80, CHR 0xA6, CHR 0xE2, CHR 0x80, CHR 0xA2, CHR 0xC3, CHR 0xAD, CHR 0xE2, CHR 0x80, CHR 0xA2, CHR 0xCB, CHR 0x9C, CHR 0xC3, CHR 0xAC, CHR 0xE2, CHR 0x80, CHR 0x9E, CHR 0xC2, CHR 0xB8, CHR 0xC3, CHR 0xAC, CHR 0xC5, CHR 0xA1, CHR 0xE2, CHR 0x80, CHR 0x9D] @
       ''! (Hello!) Here are my authentic Korean recommendations:</p>'')"

definition places_heading :: string where
  "places_heading = (''<h4>'' @ [CHR 0xC4, CHR 0x9F, CHR 0xC5, CHR 0xB8, CHR 0xC2, CHR 0xAE] @ '' Places to Visit:</h4>'')"

definition experiences_heading :: string where
  "experiences_heading = (''<h4>'' @ [CHR 0xC4, CHR 0x9F, CHR 0xC5, CHR 0xB8, CHR 0xC2, CHR 0xAD] @ '' Cultural Experiences:</h4>'')"

definition tip_line :: "string \<Rightarrow> string" where
  "tip_line cultural_tip = (''<p><em>'' @ [CHR 0xC4, CHR 0x9F, CHR 0xC5, CHR 0xB8, CHR 0xE2, CHR 0x80, CHR 0x99, CHR 0xC2, CHR 0xA1] @ '' Cultural tip: '') @ cultural_tip @ ''</em></p>''"

text \<open>
  \<^verbatim>\<open>LocalGuideSystem._generate_fallback_response\<close>.  Both reads of
  \<^verbatim>\<open>cultural_context[0]\<close> stand behind the test \<^verbatim>\<open>if cultural_context\<close>.
\<close>

definition generate_fallback_response ::
  "string \<Rightarrow> recommendation list \<Rightarrow> string list \<Rightarrow> exn + string" where
  "generate_fallback_response user_query recommendations cultural_ctx =
     (if recommendations = []
      then (case (if cultural_ctx \<noteq> [] then index0 cultural_ctx else Inr default_cultural_tip) of
              Inl e \<Rightarrow> Inl e
            | Inr cultural_tip \<Rightarrow>
                Inr (no_recommendations_head @ cultural_tip @ no_recommendations_tail))
      else
        (let places = filter (\<lambda>r. recommendation_type r = Some ''place'') recommendations;
             experiences = filter (\<lambda>r. recommendation_type r = Some ''cultural_experience'')
                             recommendations;
             parts1 = [(''<div class='' @ [CHR 0x22] @ ''local-guide-response'' @ [CHR 0x22] @ ''>''), hello_line];
             parts2 = (if places \<noteq> []
                       then [places_heading, ''<ul>''] @ map place_item (take 3 places) @ [''</ul>'']
                       else []);
             parts3 = (if experiences \<noteq> []
                       then [experiences_heading, ''<ul>''] @
                            map experience_item (take 3 experiences) @ [''</ul>'']
                       else [])
         in case (if cultural_ctx \<noteq> []
                  then (case index0 cultural_ctx of
                          Inl e \<Rightarrow> Inl e | Inr cultural_tip \<Rightarrow> Inr [tip_line cultural_tip])
                  else Inr []) of
              Inl e \<Rightarrow> Inl e
            | Inr parts4 \<Rightarrow> Inr (concat (parts1 @ parts2 @ parts3 @ parts4 @ [''</div>'']))))"

text \<open>The list of context sentences that \<^verbatim>\<open>_generate_cultural_response\<close> assembles.\<close>

definition cultural_context_elements :: "intent_analysis \<Rightarrow> string list" where
  "cultural_context_elements intent_an =
     (if ''food_culture'' \<in> set (cultural_themes intent_an)
      then [food_culture_banchan, food_culture_street_food_timing] else []) @
     (case neighborhood_focus intent_an of
        None \<Rightarrow> []
      | Some nf \<Rightarrow>
          (case map_of neighborhood_insights_table nf of
             None \<Rightarrow> []
           | Some insights \<Rightarrow>
               if nf = [] then [] else [title nf @ '': '' @ character insights])) @
     [cultural_norms_tipping, cultural_norms_punctuality]"

text \<open>\<^verbatim>\<open>LocalGuideSystem._generate_cultural_response\<close>\<close>

definition generate_cultural_response ::
  "'w services \<Rightarrow> string \<Rightarrow> recommendation list \<Rightarrow> intent_analysis
     \<Rightarrow> personalization_context option \<Rightarrow> 'w \<Rightarrow> (exn + string) \<times> 'w" where
  "generate_cultural_response svc user_query recommendations intent_an pctx w =
     (let elements = cultural_context_elements intent_an;
          cultural_context_text = join_sep ''. '' elements;
          first_try =
            (if response_generator_is_available svc w
             then (case response_generator_generate_response svc user_query recommendations
                          cultural_context_text pctx w of
                     (Inr text_out, w1) \<Rightarrow> (Some text_out, w1)
                   | (Inl e, w1) \<Rightarrow> (None, w1))
             else (None, w))
      in case first_try of
           (Some text_out, w1) \<Rightarrow> (Inr text_out, w1)
         | (None, w1) \<Rightarrow>
             (let second_try =
                    (if gemini_service_is_available svc w1
                     then (case gemini_service_generate_local_guide_response svc user_query
                                  recommendations cultural_context_text w1 of
                             (Inr text_out, w2) \<Rightarrow> (Some text_out, w2)
                           | (Inl e, w2) \<Rightarrow> (None, w2))
                     else (None, w1))
              in case second_try of
                   (Some text_out, w2) \<Rightarrow> (Inr text_out, w2)
                 | (None, w2) \<Rightarrow>
                     (generate_fallback_response user_query recommendations elements, w2)))"

section \<open>Orchestrator: \<^verbatim>\<open>get_recommendation\<close>\<close>

text \<open>
  The dict that \<^verbatim>\<open>get_recommendation\<close> returns.  The keys \<^verbatim>\<open>cultural_context\<close>,
  \<^verbatim>\<open>neighborhood_insights\<close> and \<^verbatim>\<open>authenticity_score\<close> carry the prefix \<open>result\<close> here.
  \<open>fallback_used = None\<close> is a dict without the key \<^verbatim>\<open>fallback_used\<close>.
\<close>

record orchestration_result =
  response :: string
  recommendations :: "recommendation list"
  result_cultural_context :: "string list"
  result_neighborhood_insights :: "(string \<times> neighborhood_insight) list"
  result_authenticity_score :: real
  personalization_applied :: bool
  fallback_used :: "bool option"

definition fallback_recommendations :: "recommendation list" where
  "fallback_recommendations =
     [empty_rec\<lparr>Name := Some ''Gyeongbokgung Palace'',
          Type := Some ''attraction'',
          cultural_context := Some ''Historic royal palace showcasing traditional Korean architecture'',
          neighborhood := Some ''jongno'',
          authenticity_score := Some 0.9,
          source := Some ''fallback''\<rparr>,
      empty_rec\<lparr>Name := Some ''Hongdae Street Food'',
          Type := Some ''food'',
          cultural_context := Some (''Authentic Korean street food experience in youth culture distric'' @ ''t''),
          neighborhood := Some ''hongdae'',
          authenticity_score := Some 0.8,
          source := Some ''fallback''\<rparr>,
      empty_rec\<lparr>Name := Some ''Insadong Traditional Tea House'',
          Type := Some ''experience'',
          cultural_context := Some ''Traditional Korean tea ceremony and cultural experience'',
          neighborhood := Some ''insadong'',
          authenticity_score := Some 0.9,
          source := Some ''fallback''\<rparr>]"

text \<open>\<^verbatim>\<open>LocalGuideSystem._handle_recommendation_fallback\<close>\<close>

definition handle_recommendation_fallback ::
  "string \<Rightarrow> user_profile option \<Rightarrow> exn + orchestration_result" where
  "handle_recommendation_fallback user_query profile =
     (case generate_fallback_response user_query fallback_recommendations
             [cultural_norms_tipping] of
        Inl e \<Rightarrow> Inl e
      | Inr fallback_response \<Rightarrow>
          Inr \<lparr>response = fallback_response,
               recommendations = fallback_recommendations,
               result_cultural_context = [''general_culture''],
               result_neighborhood_insights = [],
               result_authenticity_score = 0.8,
               personalization_applied = False,
               fallback_used = Some True\<rparr>)"

text \<open>The body of the \<^verbatim>\<open>try\<close> block of \<^verbatim>\<open>get_recommendation\<close>, steps 1 to 6.\<close>

definition get_recommendation_try ::
  "'w services \<Rightarrow> string \<Rightarrow> user_profile option \<Rightarrow> (real \<times> real) option \<Rightarrow> 'w
     \<Rightarrow> (exn + orchestration_result) \<times> 'w" where
  "get_recommendation_try svc user_query profile location w =
     (case analyze_user_intent svc user_query w of (intent_an, w1) \<Rightarrow>
      case get_personalization_context profile of
        Inl e \<Rightarrow> (Inl e, w1)
      | Inr pctx \<Rightarrow>
          (case coordinate_recommendation_services svc user_query intent_an pctx location w1 of
             (recs, w2) \<Rightarrow>
           let prioritized_recommendations = prioritize_authentic_experiences recs;
               enriched_recommendations = add_neighborhood_insights prioritized_recommendations
           in case generate_cultural_response svc user_query enriched_recommendations
                     intent_an pctx w2 of
                (Inl e, w3) \<Rightarrow> (Inl e, w3)
              | (Inr resp, w3) \<Rightarrow>
                  (Inr \<lparr>response = resp,
                        recommendations = enriched_recommendations,
                        result_cultural_context = cultural_themes intent_an,
                        result_neighborhood_insights =
                          extract_relevant_neighborhood_insights enriched_recommendations,
                        result_authenticity_score =
                          calculate_overall_authenticity_score enriched_recommendations,
                        personalization_applied = (pctx \<noteq> None),
                        fallback_used = None\<rparr>, w3)))"

text \<open>\<^verbatim>\<open>LocalGuideSystem.get_recommendation\<close>: the \<^verbatim>\<open>try\<close> block and its \<^verbatim>\<open>except Exception\<close>.\<close>

definition get_recommendation ::
  "'w services \<Rightarrow> string \<Rightarrow> user_profile option \<Rightarrow> (real \<times> real) option \<Rightarrow> 'w
     \<Rightarrow> (exn + orchestration_result) \<times> 'w" where
  "get_recommendation svc user_query profile location w =
     (case get_recommendation_try svc user_query profile location w of
        (Inr res, w1) \<Rightarrow> (Inr res, w1)
      | (Inl e, w1) \<Rightarrow> (handle_recommendation_fallback user_query profile, w1))"

text \<open>
  Services for concrete runs, on a world with nothing in it: every adapter is available
  and every call raises; and the same with the two search calls returning one record.
\<close>

definition raising_services :: "unit services" where
  "raising_services =
     \<lparr>response_generator_is_available = (\<lambda>w. True),
      response_generator_extract_entity_with_context =
        (\<lambda>q w. (Inl (Exception ''gemini down''), w)),
      response_generator_generate_response =
        (\<lambda>q recs c p w. (Inl (Exception ''gemini down''), w)),
      gemini_service_is_available = (\<lambda>w. True),
      gemini_service_extract_entity_with_context =
        (\<lambda>q w. (Inl (Exception ''gemini down''), w)),
      gemini_service_generate_local_guide_response =
        (\<lambda>q recs c w. (Inl (Exception ''gemini down''), w)),
      cultural_engine_is_available = (\<lambda>w. True),
      cultural_engine_find_similar_korean_experiences =
        (\<lambda>q t n w. (Inl (Exception ''tastedive down''), w)),
      search_service_is_available = (\<lambda>w. True),
      search_service_search_places = (\<lambda>q l t w. (Inl (Exception ''algolia down''), w)),
      search_service_search_by_neighborhood =
        (\<lambda>n t w. (Inl (Exception ''algolia down''), w))\<rparr>"

definition gangnam_style_district :: recommendation where
  "gangnam_style_district =
     empty_rec\<lparr>name := Some ''Gangnam Style District'', category := Some ''attraction'',
              cultural_context := Some ''Modern Korean lifestyle and K-pop culture epicenter'',
              neighborhood := Some ''gangnam''\<rparr>"

definition repeating_services :: "unit services" where
  "repeating_services =
     raising_services
       \<lparr>search_service_search_places := (\<lambda>q l t w. (Inr [gangnam_style_district], w)),
        search_service_search_by_neighborhood :=
          (\<lambda>n t w. (Inr [gangnam_style_district], w))\<rparr>"

text \<open>A profile whose visit history has an entry without a name.\<close>

definition profile_with_nameless_visit :: user_profile where
  "profile_with_nameless_visit =
     \<lparr>up_interests = [], up_food_restrictions = [], up_cultural_preferences = [],
      up_budget_range = None, up_travel_style = None, up_visited_places = [None],
      up_favorites = [], up_preferred_neighborhoods = []\<rparr>"

section \<open>Cultural discovery engine: live results and fallback\<close>



definition item_type :: "recommendation \<Rightarrow> string" where
  "item_type item = (case Type item of Some t \<Rightarrow> t | None \<Rightarrow> str_field (type_key item))"






section \<open>Search service: \<^verbatim>\<open>utils/algolia_api.py\<close>\<close>



















section \<open>Circuit breaker properties\<close>

lemma call_failing_step:
  assumes "isl (fst (f w))"
  shows "\<exists>r cb' w'. call clk cb f w = ((r, cb'), w') \<and>
           failure_threshold cb' = failure_threshold cb \<and>
           recovery_timeout cb' = recovery_timeout cb \<and>
           ((state cb = OPEN \<and> cb' = cb) \<or>
            (failure_count cb' = failure_count cb + 1 \<and>
             (if failure_count cb + 1 \<ge> failure_threshold cb then state cb' = OPEN
              else state cb' = (if state cb = OPEN then HALF_OPEN else state cb))))"
proof (cases "f w")
  case (Pair r w')
  with assms obtain e where r: "r = Inl e" by (cases r) auto
  show ?thesis
    using Pair r by (simp add: call_def on_failure_def Let_def)
qed

lemma feed_failing_calls:
  assumes "\<forall>f \<in> set fs. always_fails f" and "breaker_inv cb"
  shows "\<exists>cb' w'. feed_calls clk cb fs w = (cb', w') \<and> breaker_inv cb' \<and>
           failure_threshold cb' = failure_threshold cb \<and>
           recovery_timeout cb' = recovery_timeout cb \<and>
           (state cb' = OPEN \<or>
            (failure_count cb' = failure_count cb + int (length fs) \<and>
             (fs \<noteq> [] \<longrightarrow> failure_count cb' < failure_threshold cb)))"
  using assms
proof (induction fs arbitrary: cb w)
  case Nil
  then show ?case by simp
next
  case (Cons f fs)
  from Cons.prems(1) have fails: "isl (fst (f w))" by (simp add: always_fails_def)
  from call_failing_step [where f = f and w = w and clk = clk and cb = cb] fails
  obtain r cb1 w1 where step: "call clk cb f w = ((r, cb1), w1)"
    and thr: "failure_threshold cb1 = failure_threshold cb"
    and rt: "recovery_timeout cb1 = recovery_timeout cb"
    and alt: "(state cb = OPEN \<and> cb1 = cb) \<or>
            (failure_count cb1 = failure_count cb + 1 \<and>
             (if failure_count cb + 1 \<ge> failure_threshold cb then state cb1 = OPEN
              else state cb1 = (if state cb = OPEN then HALF_OPEN else state cb)))"
    by blast
  have inv1: "breaker_inv cb1"
    using alt Cons.prems(2) thr
    by (auto simp: breaker_inv_def split: CircuitState.splits if_splits)
  have mono: "state cb1 = OPEN \<or>
      (failure_count cb1 = failure_count cb + 1 \<and> failure_count cb1 < failure_threshold cb)"
    using alt Cons.prems(2)
    by (auto simp: breaker_inv_def split: CircuitState.splits if_splits)
  from Cons.prems(1) have rest: "\<forall>g \<in> set fs. always_fails g" by simp
  from Cons.IH [OF rest inv1, of w1]
  obtain cb' w' where fin: "feed_calls clk cb1 fs w1 = (cb', w')"
    and inv': "breaker_inv cb'"
    and thr': "failure_threshold cb' = failure_threshold cb1"
    and rt': "recovery_timeout cb' = recovery_timeout cb1"
    and alt': "state cb' = OPEN \<or>
            (failure_count cb' = failure_count cb1 + int (length fs) \<and>
             (fs \<noteq> [] \<longrightarrow> failure_count cb' < failure_threshold cb1))"
    by blast
  have open_stays: "state cb' = OPEN" if op: "state cb1 = OPEN"
  proof (cases fs)
    case Nil
    with fin have "cb' = cb1" by simp
    with op show ?thesis by simp
  next
    case (Cons g gs)
    from op inv1 have "failure_threshold cb1 \<le> failure_count cb1"
      by (simp add: breaker_inv_def)
    with alt' Cons show ?thesis by auto
  qed
  have "feed_calls clk cb (f # fs) w = (cb', w')"
    using step fin by simp
  moreover have "state cb' = OPEN \<or>
       (failure_count cb' = failure_count cb + int (length (f # fs)) \<and>
        failure_count cb' < failure_threshold cb)"
    using mono alt' open_stays thr by (cases fs) auto
  ultimately show ?case
    using inv' thr thr' rt rt' by auto
qed

lemma call_rejects_when_open:
  assumes "state cb = OPEN"
    and "\<forall>t. last_failure_time cb = Some t \<longrightarrow> clk w - t < recovery_timeout cb"
  shows "call clk cb g w = ((Inl circuit_open_error, cb), w)"
proof -
  have "\<not> should_attempt_reset cb (clk w)"
    using assms(2) by (auto simp: should_attempt_reset_def split: option.splits)
  with assms(1) show ?thesis by (simp add: call_def)
qed

text \<open>
  Claim C2.  A fresh breaker with \<open>failure_threshold = 5\<close> (any recovery timeout, any
  clock, any world) that is fed five calls whose wrapped function raises is in state
  \<open>OPEN\<close> afterwards.  A call on a breaker in state \<open>OPEN\<close>, made while less than
  \<open>recovery_timeout\<close> has passed since the recorded last failure, returns the
  "unavailable" exception and leaves the breaker and the world as they were, whatever
  the wrapped function \<open>g\<close> is: \<open>g\<close> is not invoked.
\<close>

theorem breaker_opens_after_five_failures_and_rejects:
  assumes "length fs = 5" and "\<forall>f \<in> set fs. always_fails f"
  shows "state (fst (feed_calls clk (CircuitBreaker_init 5 timeout) fs w)) = OPEN \<and>
         (\<forall>cb g w2. state cb = OPEN \<and>
              (\<forall>t. last_failure_time cb = Some t \<longrightarrow> clk w2 - t < recovery_timeout cb)
            \<longrightarrow> call clk cb g w2 = ((Inl circuit_open_error, cb), w2))"
proof (rule conjI)
  let ?cb0 = "CircuitBreaker_init 5 timeout"
  have inv0: "breaker_inv ?cb0"
    by (simp add: breaker_inv_def CircuitBreaker_init_def)
  have cnt0: "failure_count ?cb0 = 0" and thr0: "failure_threshold ?cb0 = 5"
    by (simp_all add: CircuitBreaker_init_def)
  from feed_failing_calls [OF assms(2) inv0, of clk w]
  obtain cb' w' where fin: "feed_calls clk ?cb0 fs w = (cb', w')"
    and alt: "state cb' = OPEN \<or>
            (failure_count cb' = failure_count ?cb0 + int (length fs) \<and>
             (fs \<noteq> [] \<longrightarrow> failure_count cb' < failure_threshold ?cb0))"
    by blast
  from assms(1) have ne: "fs \<noteq> []" by auto
  have "state cb' = OPEN"
  proof (rule ccontr)
    assume "state cb' \<noteq> OPEN"
    with alt ne have "failure_count cb' = 0 + int (length fs)" and "failure_count cb' < 5"
      by (simp_all only: cnt0 thr0) blast+
    with assms(1) show False by simp
  qed
  with fin show "state (fst (feed_calls clk ?cb0 fs w)) = OPEN"
    by simp
next
  show "\<forall>cb g w2. state cb = OPEN \<and>
              (\<forall>t. last_failure_time cb = Some t \<longrightarrow> clk w2 - t < recovery_timeout cb)
            \<longrightarrow> call clk cb g w2 = ((Inl circuit_open_error, cb), w2)"
    by (intro allI impI, rule call_rejects_when_open) simp_all
qed

theorem breaker_opens_after_five_failures_and_rejects_witness:
  "feed_calls fst (CircuitBreaker_init 5 60)
     [failing_probe, failing_probe, failing_probe, failing_probe, failing_probe] (1000, 0)
     = (\<lparr>failure_threshold = 5, recovery_timeout = 60, failure_count = 5,
         last_failure_time = Some 1005, state = OPEN\<rparr>, (1005, 5)) \<and>
   call fst \<lparr>failure_threshold = 5, recovery_timeout = 60, failure_count = 5,
         last_failure_time = Some 1005, state = OPEN\<rparr> succeeding_probe (1064, 5)
     = ((Inl circuit_open_error,
         \<lparr>failure_threshold = 5, recovery_timeout = 60, failure_count = 5,
          last_failure_time = Some 1005, state = OPEN\<rparr>), (1064, 5))"
proof -
  let ?fs = "[failing_probe, failing_probe, failing_probe, failing_probe, failing_probe]"
  let ?cb = "\<lparr>failure_threshold = 5, recovery_timeout = 60, failure_count = 5,
         last_failure_time = Some (1005::real), state = OPEN\<rparr>"
  have len: "length ?fs = 5" by simp
  have fails: "\<forall>f \<in> set ?fs. always_fails f"
    by (simp add: always_fails_def failing_probe_def)
  have run: "feed_calls fst (CircuitBreaker_init 5 60) ?fs (1000, 0) = (?cb, (1005, 5))"
    by (simp add: call_def on_failure_def CircuitBreaker_init_def failing_probe_def Let_def)
  have pre: "state ?cb = OPEN \<and>
      (\<forall>t. last_failure_time ?cb = Some t \<longrightarrow> fst (1064::real, 5::nat) - t < recovery_timeout ?cb)"
    by simp
  from breaker_opens_after_five_failures_and_rejects
         [OF len fails, of fst 60 "(1000, 0)"]
  have "call fst ?cb succeeding_probe (1064, 5) = ((Inl circuit_open_error, ?cb), (1064, 5))"
    using pre by blast
  with run show ?thesis by simp
qed

text \<open>
  Claim C7.  On a breaker that is \<open>CLOSED\<close> or \<open>HALF_OPEN\<close>, with any failure
  count, a call whose wrapped function returns a value returns that value, sets the
  failure counter to 0 and leaves the breaker \<open>CLOSED\<close>.
\<close>

theorem successful_call_resets_breaker:
  assumes "state cb = CLOSED \<or> state cb = HALF_OPEN"
    and "func w = (Inr v, w')"
  shows "call clk cb func w = ((Inr v, cb\<lparr>failure_count := 0, state := CLOSED\<rparr>), w')"
  using assms by (auto simp: call_def on_success_def)

theorem successful_call_resets_breaker_witness:
  "call fst \<lparr>failure_threshold = 5, recovery_timeout = 60, failure_count = 7,
         last_failure_time = Some 1005, state = HALF_OPEN\<rparr> succeeding_probe (1070, 7)
     = ((Inr ''ok'', \<lparr>failure_threshold = 5, recovery_timeout = 60, failure_count = 0,
         last_failure_time = Some 1005, state = CLOSED\<rparr>), (1071, 8))"
proof -
  let ?cb = "\<lparr>failure_threshold = 5, recovery_timeout = 60, failure_count = 7,
         last_failure_time = Some (1005::real), state = HALF_OPEN\<rparr>"
  have st: "state ?cb = CLOSED \<or> state ?cb = HALF_OPEN" by simp
  have ok: "succeeding_probe (1070, 7) = (Inr ''ok'', (1071, 8))"
    by (simp add: succeeding_probe_def)
  from successful_call_resets_breaker
         [where cb = ?cb and func = succeeding_probe and w = "(1070, 7)" and v = "''ok''"
            and w' = "(1071, 8)" and clk = fst] st ok
  show ?thesis by simp
qed

section \<open>Scoring properties\<close>

lemma add_hits_ge:
  assumes "\<And>k. 0 \<le> weight k"
  shows "s \<le> add_hits weight ks text s"
proof (induction ks arbitrary: s)
  case Nil
  show ?case by simp
next
  case (Cons k ks)
  have "s \<le> (if py_in k text then s + weight k else s)"
    using assms [of k] by simp
  also have "\<dots> \<le> add_hits weight ks text (if py_in k text then s + weight k else s)"
    by (rule Cons.IH)
  finally show ?case by simp
qed

lemma add_weighted_hits_ge:
  assumes "\<forall>w \<in> snd ` set kws. 0 \<le> w"
  shows "s \<le> add_weighted_hits kws txt s"
  using assms
proof (induction kws arbitrary: s)
  case Nil
  show ?case by simp
next
  case (Cons kw kws)
  obtain keyword weight where kw: "kw = (keyword, weight)" by (cases kw)
  from Cons.prems kw have w: "0 \<le> weight" and rest: "\<forall>w \<in> snd ` set kws. 0 \<le> w"
    by auto
  have "s \<le> (if py_in keyword txt then s + weight * 0.1 else s)"
    using w by simp
  also have "\<dots> \<le> add_weighted_hits kws txt (if py_in keyword txt then s + weight * 0.1 else s)"
    using rest by (rule Cons.IH)
  finally show ?case using kw by simp
qed

lemma authenticity_weights_nonneg: "\<forall>w \<in> snd ` set authenticity_weights. 0 \<le> w"
  by (simp add: authenticity_weights_def)

lemma lgs_calculate_authenticity_score_bounds:
  "1 / 2 \<le> lgs_calculate_authenticity_score r \<and> lgs_calculate_authenticity_score r \<le> 1"
proof -
  define t where "t = lower (str_field (Name r) @ '' '' @ str_field (wTeaser r) @ '' '' @
                            str_field (description r) @ '' '' @
                            str_field (cultural_context r) @ '' '' @ cultural_tags_str r)"
  define s1 where "s1 = add_weighted_hits authenticity_weights t 0.5"
  define s2 where "s2 = (if source r = Some ''local_knowledge'' then s1 + 0.2 else s1)"
  define s3 where "s3 = (case neighborhood r of
                      None \<Rightarrow> s2
                    | Some n \<Rightarrow> if n \<in> set (map fst neighborhood_insights_table)
                                then s2 + 0.1 else s2)"
  have eq: "lgs_calculate_authenticity_score r = min s3 1"
    unfolding lgs_calculate_authenticity_score_def Let_def t_def s1_def s2_def s3_def
    by (rule refl)
  have "0.5 \<le> s1"
    unfolding s1_def using authenticity_weights_nonneg by (rule add_weighted_hits_ge)
  then have "0.5 \<le> s2" by (simp add: s2_def)
  then have "0.5 \<le> s3" by (simp add: s3_def split: option.splits)
  with eq show ?thesis by simp
qed

lemma prioritize_scores:
  assumes "r \<in> set (prioritize_authentic_experiences recs)"
  shows "\<exists>s. authenticity_score r = Some s \<and> 1 / 2 \<le> s \<and> s \<le> 1"
proof -
  from assms obtain r0 where "r = r0\<lparr>authenticity_score := Some (lgs_calculate_authenticity_score r0)\<rparr>"
    by (auto simp: prioritize_authentic_experiences_def)
  then have "authenticity_score r = Some (lgs_calculate_authenticity_score r0)" by simp
  with lgs_calculate_authenticity_score_bounds [of r0] show ?thesis by simp
qed

lemma add_neighborhood_insights_one_score:
  "authenticity_score (add_neighborhood_insights_one r) = authenticity_score r"
  by (simp add: add_neighborhood_insights_one_def Let_def split: option.splits)

lemma sum_list_bounds:
  fixes f :: "'a \<Rightarrow> real"
  assumes "\<forall>x \<in> set xs. lo \<le> f x \<and> f x \<le> hi"
  shows "lo * real (length xs) \<le> sum_list (map f xs) \<and> sum_list (map f xs) \<le> hi * real (length xs)"
  using assms by (induction xs) (auto simp: algebra_simps)

lemma overall_bounds:
  assumes ne: "recs \<noteq> []"
    and all: "\<forall>r \<in> set recs. lo \<le> num_field (authenticity_score r) \<and> num_field (authenticity_score r) \<le> hi"
  shows "lo \<le> calculate_overall_authenticity_score recs \<and> calculate_overall_authenticity_score recs \<le> hi"
proof -
  let ?n = "real (length recs)"
  let ?S = "sum_list (map (\<lambda>r. num_field (authenticity_score r)) recs)"
  from ne have pos: "0 < ?n" by simp
  from sum_list_bounds [OF all] have "lo * ?n \<le> ?S" and "?S \<le> hi * ?n" by simp_all
  with pos have "lo \<le> ?S / ?n" and "?S / ?n \<le> hi"
    by (simp_all add: pos_le_divide_eq pos_divide_le_eq)
  with ne show ?thesis by (simp add: calculate_overall_authenticity_score_def)
qed

lemma calculate_cultural_relevance_score_bounds:
  "0 \<le> calculate_cultural_relevance_score n d t \<and> calculate_cultural_relevance_score n d t \<le> 1"
proof -
  define tc where "tc = lower (n @ '' '' @ d)"
  define s0 where "s0 = add_hits korean_keyword_weight korean_cultural_keywords tc 0"
  define s1 where "s1 = add_hits (\<lambda>k. 0.05) cultural_indicators tc s0"
  define s2 where "s2 = add_hits (\<lambda>k. 0.15) korean_elements tc s1"
  define s3 where "s3 = add_hits (\<lambda>k. 0.1) asian_indicators tc s2"
  define s4 where "s4 = (if s3 = 0 \<and>
                       any_in [''culture'', ''traditional'', ''modern'', ''art'', ''music'', ''film'']
                         tc
                    then 0.15 else s3)"
  have eq: "calculate_cultural_relevance_score n d t = min s4 1"
    unfolding calculate_cultural_relevance_score_def Let_def tc_def s0_def s1_def s2_def
      s3_def s4_def
    by (rule refl)
  have "0 \<le> s0"
    unfolding s0_def by (rule add_hits_ge) (simp add: korean_keyword_weight_def)
  also have "s0 \<le> s1" unfolding s1_def by (rule add_hits_ge) simp
  also have "s1 \<le> s2" unfolding s2_def by (rule add_hits_ge) simp
  also have "s2 \<le> s3" unfolding s3_def by (rule add_hits_ge) simp
  finally have "0 \<le> s3" .
  then have "0 \<le> s4" by (simp add: s4_def)
  with eq show ?thesis by simp
qed

lemma calculate_authenticity_score_bounds:
  "1 / 2 \<le> calculate_authenticity_score n d \<and> calculate_authenticity_score n d \<le> 1"
proof -
  define tc where "tc = lower (n @ '' '' @ d)"
  define s1 where "s1 = add_hits (\<lambda>k. 0.1) authentic_elements tc 0.5"
  define s2 where "s2 = add_hits (\<lambda>k. 0.05) modern_elements tc s1"
  have eq: "calculate_authenticity_score n d = min s2 1"
    unfolding calculate_authenticity_score_def Let_def tc_def s1_def s2_def
    by (rule refl)
  have "0.5 \<le> s1" unfolding s1_def by (rule add_hits_ge) simp
  also have "s1 \<le> s2" unfolding s2_def by (rule add_hits_ge) simp
  finally have "0.5 \<le> s2" .
  with eq show ?thesis by simp
qed

text \<open>
  Claim C5.  The cultural relevance score and the authenticity score of the cultural
  discovery engine are functions of their text arguments alone (the embedding has no
  other argument for them to read, and the \<open>item_type\<close> argument of the relevance score
  is never used), and both lie in the closed interval from 0 to 1.  The same bounds hold
  for the orchestrator's authenticity score of a record.
\<close>

theorem scoring_functions_deterministic_and_bounded:
  "0 \<le> calculate_cultural_relevance_score n d t \<and>
   calculate_cultural_relevance_score n d t \<le> 1 \<and>
   calculate_cultural_relevance_score n d t = calculate_cultural_relevance_score n d t' \<and>
   0 \<le> calculate_authenticity_score n d \<and>
   calculate_authenticity_score n d \<le> 1 \<and>
   0 \<le> lgs_calculate_authenticity_score r \<and>
   lgs_calculate_authenticity_score r \<le> 1"
proof -
  have indep: "calculate_cultural_relevance_score n d t = calculate_cultural_relevance_score n d t'"
    by (simp add: calculate_cultural_relevance_score_def)
  from calculate_authenticity_score_bounds [of n d]
  have a: "0 \<le> calculate_authenticity_score n d" "calculate_authenticity_score n d \<le> 1"
    by simp_all
  from lgs_calculate_authenticity_score_bounds [of r]
  have l: "0 \<le> lgs_calculate_authenticity_score r" "lgs_calculate_authenticity_score r \<le> 1"
    by simp_all
  from calculate_cultural_relevance_score_bounds [of n d t] indep a l
  show ?thesis by simp
qed

text \<open>
  Claim C10.  The authenticity prioritization step gives every record an
  \<open>authenticity_score\<close> between 0.5 and 1: the score starts at 0.5, every keyword,
  source and neighborhood addition is non-negative, and the result is capped at 1.
  Neighborhood enrichment leaves the scores as they are, so for a non-empty list the
  overall score of the result, the arithmetic mean, is at least 0.5 (and at most 1).
\<close>

theorem authenticity_prioritization_scores_at_least_half:
  "(\<forall>r \<in> set (prioritize_authentic_experiences recs).
       \<exists>s. authenticity_score r = Some s \<and> 1 / 2 \<le> s \<and> s \<le> 1) \<and>
   (recs \<noteq> [] \<longrightarrow>
      1 / 2 \<le> calculate_overall_authenticity_score
                 (add_neighborhood_insights (prioritize_authentic_experiences recs)) \<and>
      calculate_overall_authenticity_score
                 (add_neighborhood_insights (prioritize_authentic_experiences recs)) \<le> 1)"
proof (intro conjI ballI impI)
  fix r assume "r \<in> set (prioritize_authentic_experiences recs)"
  then show "\<exists>s. authenticity_score r = Some s \<and> 1 / 2 \<le> s \<and> s \<le> 1"
    by (rule prioritize_scores)
next
  let ?out = "add_neighborhood_insights (prioritize_authentic_experiences recs)"
  assume ne: "recs \<noteq> []"
  have len: "length ?out = length recs"
    by (simp add: add_neighborhood_insights_def prioritize_authentic_experiences_def)
  with ne have ne': "?out \<noteq> []" by auto
  have all: "\<forall>r \<in> set ?out. 1 / 2 \<le> num_field (authenticity_score r) \<and>
                num_field (authenticity_score r) \<le> 1"
  proof
    fix r assume "r \<in> set ?out"
    then obtain p where p: "p \<in> set (prioritize_authentic_experiences recs)"
      and r: "r = add_neighborhood_insights_one p"
      by (auto simp: add_neighborhood_insights_def)
    from prioritize_scores [OF p] obtain s where "authenticity_score p = Some s"
      and "1 / 2 \<le> s" and "s \<le> 1" by blast
    with r show "1 / 2 \<le> num_field (authenticity_score r) \<and> num_field (authenticity_score r) \<le> 1"
      by (simp add: add_neighborhood_insights_one_score num_field_def)
  qed
  from overall_bounds [OF ne' all]
  show "1 / 2 \<le> calculate_overall_authenticity_score ?out"
    and "calculate_overall_authenticity_score ?out \<le> 1" by simp_all
qed

theorem authenticity_prioritization_scores_at_least_half_witness:
  "map authenticity_score (prioritize_authentic_experiences [empty_rec, sample_tea_house])
     = [Some (7 / 10), Some (1 / 2)] \<and>
   1 / 2 \<le> calculate_overall_authenticity_score
      (add_neighborhood_insights (prioritize_authentic_experiences [empty_rec, sample_tea_house]))"
proof -
  have run: "map authenticity_score (prioritize_authentic_experiences [empty_rec, sample_tea_house])
     = [Some (7 / 10), Some (1 / 2)]"
    by code_simp
  have ne: "[empty_rec, sample_tea_house] \<noteq> []" by simp
  from authenticity_prioritization_scores_at_least_half [of "[empty_rec, sample_tea_house]"] ne
  have "1 / 2 \<le> calculate_overall_authenticity_score
      (add_neighborhood_insights (prioritize_authentic_experiences [empty_rec, sample_tea_house]))"
    by blast
  with run show ?thesis by simp
qed

section \<open>Personalization filter properties\<close>

lemma is_prefix_iff: "is_prefix xs ys \<longleftrightarrow> (\<exists>zs. ys = xs @ zs)"
  by (induction xs ys rule: is_prefix.induct) auto

lemma py_in_iff: "py_in needle hay \<longleftrightarrow> (\<exists>ps ss. hay = ps @ needle @ ss)"
proof (induction hay)
  case Nil
  show ?case by auto
next
  case (Cons h hs)
  show ?case
  proof
    assume "py_in needle (h # hs)"
    then consider "is_prefix needle (h # hs)" | "py_in needle hs" by auto
    then show "\<exists>ps ss. h # hs = ps @ needle @ ss"
    proof cases
      case 1
      then obtain zs where "h # hs = needle @ zs" by (auto simp: is_prefix_iff)
      then have "h # hs = [] @ needle @ zs" by simp
      then show ?thesis by blast
    next
      case 2
      with Cons.IH obtain ps ss where "hs = ps @ needle @ ss" by blast
      then have "h # hs = (h # ps) @ needle @ ss" by simp
      then show ?thesis by blast
    qed
  next
    assume "\<exists>ps ss. h # hs = ps @ needle @ ss"
    then obtain ps ss where eq: "h # hs = ps @ needle @ ss" by blast
    show "py_in needle (h # hs)"
    proof (cases ps)
      case Nil
      with eq have "h # hs = needle @ ss" by simp
      then have "is_prefix needle (h # hs)" by (auto simp: is_prefix_iff)
      then show ?thesis by simp
    next
      case (Cons p ps')
      with eq have "hs = ps' @ needle @ ss" by simp
      with Cons.IH have "py_in needle hs" by blast
      then show ?thesis by simp
    qed
  qed
qed

lemma py_in_lower:
  assumes "py_in needle hay" and "lower needle = needle"
  shows "py_in needle (lower hay)"
proof -
  from assms(1) obtain ps ss where "hay = ps @ needle @ ss" by (auto simp: py_in_iff)
  then have "lower hay = lower ps @ lower needle @ lower ss" by (simp add: lower_def)
  with assms(2) show ?thesis by (auto simp: py_in_iff)
qed

lemma lower_pork: "lower ''pork'' = ''pork''"
  by code_simp

lemma vegetarian_keywords:
  "map_of restriction_keywords (lower ''vegetarian'')
     = Some [''meat'', ''beef'', ''pork'', ''chicken'', ''fish'', ''seafood'', ''bbq'']"
  by code_simp

lemma violates_any_vegetarian_pork:
  assumes "''vegetarian'' \<in> set restrictions" and "py_in ''pork'' rtext"
  shows "violates_any rtext restrictions"
  using assms(1)
proof (induction restrictions)
  case Nil
  then show ?case by simp
next
  case (Cons restriction restrictions)
  show ?case
  proof (cases "restriction = ''vegetarian''")
    case True
    have "any_in [''meat'', ''beef'', ''pork'', ''chicken'', ''fish'', ''seafood'', ''bbq''] rtext"
      using assms(2) by (simp add: any_in_def)
    with True show ?thesis by (simp add: vegetarian_keywords)
  next
    case False
    with Cons.prems have "''vegetarian'' \<in> set restrictions" by simp
    then have "violates_any rtext restrictions" by (rule Cons.IH)
    then show ?thesis by (simp split: option.splits)
  qed
qed

lemma personalization_loop_member:
  assumes "r' \<in> set (personalization_loop ctx recs)"
  shows "\<exists>r \<in> set recs. \<exists>sc. r' = r\<lparr>personalization_score := sc\<rparr> \<and>
           rec_name r \<notin> set (visited_places ctx) \<and>
           \<not> (is_restaurant r \<and> violates_food_restrictions r (food_restrictions ctx))"
  using assms
proof (induction recs)
  case Nil
  then show ?case by simp
next
  case (Cons r recs)
  then show ?case by (auto split: if_splits)
qed

lemma score_update_keeps_text:
  "combined_text (r\<lparr>personalization_score := sc\<rparr>) = combined_text r"
  "rec_text (r\<lparr>personalization_score := sc\<rparr>) = rec_text r"
  "is_restaurant (r\<lparr>personalization_score := sc\<rparr>) = is_restaurant r"
  by (simp_all add: combined_text_def rec_text_def is_restaurant_def cultural_tags_str_def)

text \<open>
  What the filter does exclude: with \<open>vegetarian\<close> declared, no restaurant-kind record
  is kept whose searched text, built from the keys \<^verbatim>\<open>'Name'\<close>, \<^verbatim>\<open>'wTeaser'\<close>,
  \<^verbatim>\<open>'description'\<close> and \<^verbatim>\<open>'cultural_tags'\<close>, contains \<open>pork\<close>.
\<close>

lemma filter_drops_restaurants_whose_searched_text_has_pork:
  assumes "''vegetarian'' \<in> set (food_restrictions ctx)"
  shows "\<forall>r' \<in> set (apply_personalization_filtering recs ctx).
           \<not> (is_restaurant r' \<and>
               (py_in ''pork'' (combined_text r') \<or> py_in ''pork'' (rec_text r')))"
proof
  fix r' assume "r' \<in> set (apply_personalization_filtering recs ctx)"
  then have "r' \<in> set (personalization_loop ctx recs)"
    by (simp add: apply_personalization_filtering_def)
  from personalization_loop_member [OF this]
  obtain r sc where r': "r' = r\<lparr>personalization_score := sc\<rparr>"
    and keep: "\<not> (is_restaurant r \<and> violates_food_restrictions r (food_restrictions ctx))"
    by blast
  show "\<not> (is_restaurant r' \<and>
            (py_in ''pork'' (combined_text r') \<or> py_in ''pork'' (rec_text r')))"
  proof
    assume bad: "is_restaurant r' \<and>
            (py_in ''pork'' (combined_text r') \<or> py_in ''pork'' (rec_text r'))"
    with r' have rest: "is_restaurant r"
      and pk: "py_in ''pork'' (combined_text r) \<or> py_in ''pork'' (rec_text r)"
      by (simp_all add: score_update_keeps_text)
    from pk have pork: "py_in ''pork'' (rec_text r)"
      using py_in_lower [OF _ lower_pork, of "combined_text r"]
      by (auto simp: rec_text_def)
    from assms have ne: "food_restrictions ctx \<noteq> []" by auto
    from violates_any_vegetarian_pork [OF assms pork] ne
    have "violates_food_restrictions r (food_restrictions ctx)"
      by (simp add: violates_food_restrictions_def)
    with rest keep show False by simp
  qed
qed

text \<open>
  Claim C8.  The claim fails on the code at a restaurant whose name, \<open>Jeju black pork
  house\<close>, stands under the key \<^verbatim>\<open>'name'\<close>, as in every record the search adapter builds:
  the record is restaurant-kind, its name contains \<open>pork\<close>, the user has declared
  \<open>vegetarian\<close>, and the filter keeps the record.  The food restriction test reads the
  name under \<^verbatim>\<open>'Name'\<close> only, while the visited-place test of the same loop reads
  \<^verbatim>\<open>'Name'\<close> and then \<^verbatim>\<open>'name'\<close>.
\<close>

theorem vegetarian_filter_keeps_restaurant_named_with_pork:
  "is_restaurant pork_named_restaurant \<and>
   py_in ''pork'' (rec_name pork_named_restaurant) \<and>
   ''vegetarian'' \<in> set (food_restrictions vegetarian_context) \<and>
   map rec_name (apply_personalization_filtering [pork_named_restaurant] vegetarian_context)
     = [''Jeju black pork house'']"
  by code_simp

section \<open>Orchestrator properties\<close>

lemma generate_fallback_response_returns:
  "\<exists>s. generate_fallback_response user_query recs cultural_ctx = Inr s"
proof (cases cultural_ctx)
  case Nil
  then show ?thesis by (simp add: generate_fallback_response_def Let_def)
next
  case (Cons tip rest)
  then show ?thesis by (simp add: generate_fallback_response_def index0_def Let_def)
qed

lemma handle_recommendation_fallback_returns:
  "\<exists>res. handle_recommendation_fallback user_query profile = Inr res \<and>
         fallback_used res = Some True"
proof -
  from generate_fallback_response_returns
  obtain s where "generate_fallback_response user_query fallback_recommendations
                    [cultural_norms_tipping] = Inr s"
    by blast
  then show ?thesis by (simp add: handle_recommendation_fallback_def)
qed

lemma get_recommendation_try_success_has_no_flag:
  assumes "fst (get_recommendation_try svc user_query profile location w) = Inr res"
  shows "fallback_used res = None"
  using assms
  by (auto simp: get_recommendation_try_def Let_def split: prod.splits sum.splits)

text \<open>
  Claim C1.  For every query (the empty string included), every user profile or none,
  every location or none, every world and every behaviour of the coordinated services
  (all of them raising on every call included), \<open>get_recommendation\<close> returns a result
  and raises nothing: an exception of the \<^verbatim>\<open>try\<close> block is caught, and the fallback
  handler that then runs does not raise either.
\<close>

theorem get_recommendation_never_raises:
  "\<exists>res. fst (get_recommendation svc user_query profile location w) = Inr res"
proof (cases "get_recommendation_try svc user_query profile location w")
  case (Pair outcome w1)
  show ?thesis
  proof (cases outcome)
    case (Inr res)
    with Pair show ?thesis by (simp add: get_recommendation_def)
  next
    case (Inl e)
    from handle_recommendation_fallback_returns [of user_query profile]
    obtain res where "handle_recommendation_fallback user_query profile = Inr res" by blast
    with Pair Inl show ?thesis by (simp add: get_recommendation_def)
  qed
qed

text \<open>
  Claim C6, as stated, fails.  With every service raising, an empty query, no profile
  and no location, \<open>get_recommendation\<close> returns on its success path; the response is
  the structured fallback text, so the response composition fell back; and the result
  has no \<^verbatim>\<open>fallback_used\<close> key.
\<close>

theorem success_path_result_lacks_fallback_used:
  "map_sum id fallback_used (fst (get_recommendation raising_services '''' None None ()))
     = Inr None \<and>
   map_sum id response (fst (get_recommendation raising_services '''' None None ()))
     = generate_fallback_response '''' [] [cultural_norms_tipping, cultural_norms_punctuality]"
  by code_simp

text \<open>
  Claim C6, amended.  Every call of \<open>get_recommendation\<close> returns a result with the keys
  \<^verbatim>\<open>response\<close>, \<^verbatim>\<open>recommendations\<close>, \<^verbatim>\<open>cultural_context\<close>, \<^verbatim>\<open>neighborhood_insights\<close>,
  \<^verbatim>\<open>authenticity_score\<close> and \<^verbatim>\<open>personalization_applied\<close>.  The key \<^verbatim>\<open>fallback_used\<close> is
  present, with the value true, exactly when the \<^verbatim>\<open>try\<close> block raised and the
  orchestrator-level fallback produced the result; on the success path the key is
  absent, whether or not the response composition fell back.
\<close>

theorem fallback_used_only_on_orchestrator_fallback:
  "\<exists>res. fst (get_recommendation svc user_query profile location w) = Inr res \<and>
         fallback_used res =
           (if isl (fst (get_recommendation_try svc user_query profile location w))
            then Some True else None)"
proof (cases "get_recommendation_try svc user_query profile location w")
  case (Pair outcome w1)
  show ?thesis
  proof (cases outcome)
    case (Inr res)
    with Pair have "fst (get_recommendation_try svc user_query profile location w) = Inr res"
      by simp
    from get_recommendation_try_success_has_no_flag [OF this] Pair Inr
    show ?thesis by (simp add: get_recommendation_def)
  next
    case (Inl e)
    from handle_recommendation_fallback_returns [of user_query profile]
    obtain res where "handle_recommendation_fallback user_query profile = Inr res"
      and "fallback_used res = Some True" by blast
    with Pair Inl show ?thesis by (simp add: get_recommendation_def)
  qed
qed

lemma rec_name_tag_rec: "rec_name (tag_rec src rtype r) = rec_name r"
  by (simp add: rec_name_def tag_rec_def split: option.splits)

lemma merge_concatenates_adapter_results:
  assumes "cultural_engine_is_available svc w"
    and "cultural_engine_find_similar_korean_experiences svc user_query ''all'' 8 w
           = (Inr cultural, w1)"
    and "search_service_is_available svc w1"
    and "search_service_search_places svc user_query
           (Some (case location of Some l \<Rightarrow> l | None \<Rightarrow> seoul_center)) None w1
           = (Inr places, w2)"
    and "neighborhood_focus intent_an = Some nf" and "nf \<noteq> []"
    and "search_service_search_by_neighborhood svc nf None w2 = (Inr nearby, w3)"
  shows "map rec_name
           (fst (coordinate_recommendation_services svc user_query intent_an None location w))
           = map rec_name cultural @ take 6 (map rec_name places) @ take 4 (map rec_name nearby)"
proof -
  have c: "cultural_recs_step svc user_query w
             = (map (tag_rec ''cultural_discovery'' ''cultural_experience'') cultural, w1)"
    using assms(1,2) by (simp add: cultural_recs_step_def)
  have p: "place_recs_step svc user_query location w1
             = (take 6 (map (tag_rec ''search_service'' ''place'') places), w2)"
    using assms(3,4) by (simp add: place_recs_step_def Let_def)
  have n: "neighborhood_recs_step svc (neighborhood_focus intent_an) w2
             = (take 4 (map (tag_rec ''neighborhood_search'' ''neighborhood_place'') nearby), w3)"
    using assms(5,6,7) by (simp add: neighborhood_recs_step_def)
  have names: "map rec_name (map (tag_rec a b) xs) = map rec_name xs" for a b xs
    by (simp add: rec_name_tag_rec)
  show ?thesis
    using c p n
    by (simp add: coordinate_recommendation_services_def take_map rec_name_tag_rec
          del: map_map) (simp add: comp_def rec_name_tag_rec)
qed

text \<open>
  Claim C3.  The claim fails on the code.  The place search and the neighborhood search
  both return the record named \<open>Gangnam Style District\<close> (both fallback tables of the
  search adapter hold a record of that name); for the query \<open>gangnam\<close>, with no
  profile and no location, the merged list holds the name twice.  The merge step only
  concatenates: the cultural records, then the first six place records, then the first
  four neighborhood records, with their names as the adapters gave them.
\<close>

theorem merge_keeps_duplicate_names:
  "\<not> distinct (map rec_name (fst (coordinate_recommendation_services repeating_services
        ''gangnam'' (fallback_intent_analysis ''gangnam'') None None ())))"
  by code_simp

section \<open>Adapter properties\<close>











section \<open>Place search properties\<close>







end
